theory Spec2Isabelle
  imports Complex_Main
begin

section \<open>Floating-point values\<close>

text \<open>
  The entries of a numpy \<^verbatim>\<open>float32\<close> array are finite numbers, the two infinities or
  NaN. A finite entry is modelled by the real number it denotes: the special values follow
  IEEE 754 (NaN propagates, \<open>inf - inf\<close>, \<open>0 * inf\<close>, \<open>inf / inf\<close> and \<open>0 / 0\<close> are NaN, a
  nonzero number divided by zero is an infinity), while the arithmetic on finite entries is
  exact. Rounding to 24 bits, overflow of a finite result to an infinity and the sign of
  zero are not modelled.
\<close>

datatype f32 = Fin real | PInf | NInf | NaN

fun is_finite :: "f32 \<Rightarrow> bool" where
  "is_finite (Fin x) = True"
| "is_finite _ = False"

text \<open>The number a finite entry denotes.\<close>

fun fin_value :: "f32 \<Rightarrow> real" where
  "fin_value (Fin x) = x"
| "fin_value _ = 0"

fun fadd :: "f32 \<Rightarrow> f32 \<Rightarrow> f32" where
  "fadd NaN _ = NaN"
| "fadd _ NaN = NaN"
| "fadd PInf NInf = NaN"
| "fadd NInf PInf = NaN"
| "fadd PInf _ = PInf"
| "fadd _ PInf = PInf"
| "fadd NInf _ = NInf"
| "fadd _ NInf = NInf"
| "fadd (Fin x) (Fin y) = Fin (x + y)"

fun fneg :: "f32 \<Rightarrow> f32" where
  "fneg (Fin x) = Fin (- x)"
| "fneg PInf = NInf"
| "fneg NInf = PInf"
| "fneg NaN = NaN"

fun inf_times :: "real \<Rightarrow> f32" where
  "inf_times x = (if x = 0 then NaN else if 0 < x then PInf else NInf)"

fun fmul :: "f32 \<Rightarrow> f32 \<Rightarrow> f32" where
  "fmul NaN _ = NaN"
| "fmul _ NaN = NaN"
| "fmul (Fin x) (Fin y) = Fin (x * y)"
| "fmul PInf (Fin y) = inf_times y"
| "fmul (Fin x) PInf = inf_times x"
| "fmul NInf (Fin y) = fneg (inf_times y)"
| "fmul (Fin x) NInf = fneg (inf_times x)"
| "fmul PInf PInf = PInf"
| "fmul NInf NInf = PInf"
| "fmul PInf NInf = NInf"
| "fmul NInf PInf = NInf"

fun fdiv :: "f32 \<Rightarrow> f32 \<Rightarrow> f32" where
  "fdiv NaN _ = NaN"
| "fdiv _ NaN = NaN"
| "fdiv (Fin x) (Fin y) = (if y = 0 then inf_times x else Fin (x / y))"
| "fdiv (Fin x) PInf = Fin 0"
| "fdiv (Fin x) NInf = Fin 0"
| "fdiv PInf (Fin y) = (if 0 \<le> y then PInf else NInf)"
| "fdiv NInf (Fin y) = (if 0 \<le> y then NInf else PInf)"
| "fdiv _ _ = NaN"

fun fsqrt :: "f32 \<Rightarrow> f32" where
  "fsqrt (Fin x) = (if x < 0 then NaN else Fin (sqrt x))"
| "fsqrt PInf = PInf"
| "fsqrt NInf = NaN"
| "fsqrt NaN = NaN"

text \<open>\<^verbatim>\<open>np.maximum\<close>: the larger entry, NaN when either entry is NaN.\<close>

fun fmaximum :: "f32 \<Rightarrow> f32 \<Rightarrow> f32" where
  "fmaximum NaN _ = NaN"
| "fmaximum _ NaN = NaN"
| "fmaximum PInf _ = PInf"
| "fmaximum _ PInf = PInf"
| "fmaximum NInf y = y"
| "fmaximum x NInf = x"
| "fmaximum (Fin x) (Fin y) = Fin (max x y)"

text \<open>A reduction with \<^verbatim>\<open>np.add\<close> starts from zero and adds the entries in order.\<close>

definition fsum :: "f32 list \<Rightarrow> f32" where
  "fsum xs = foldl fadd (Fin 0) xs"

section \<open>The fragment of numpy the service uses\<close>

text \<open>
  An array is its shape and its entries by index, as a numpy \<^verbatim>\<open>ndarray\<close> is; only the
  entries inside the shape are meaningful. \<open>tolist2\<close> is \<^verbatim>\<open>ndarray.tolist()\<close> and
  \<open>array2\<close>, \<open>array3\<close> are \<^verbatim>\<open>np.array\<close> of a rectangular nested list, whose shape is read
  off the first element of each level.
\<close>

record 'a ndarray2 =
  shape2 :: "nat \<times> nat"
  at2 :: "nat \<Rightarrow> nat \<Rightarrow> 'a"

record 'a ndarray3 =
  shape3 :: "nat \<times> nat \<times> nat"
  at3 :: "nat \<Rightarrow> nat \<Rightarrow> nat \<Rightarrow> 'a"

definition width :: "'a list list \<Rightarrow> nat" where
  "width xss = (case xss of [] \<Rightarrow> 0 | xs # _ \<Rightarrow> length xs)"

definition array2 :: "'a list list \<Rightarrow> 'a ndarray2" where
  "array2 xss = \<lparr>shape2 = (length xss, width xss), at2 = (\<lambda>i j. xss ! i ! j)\<rparr>"

definition array3 :: "'a list list list \<Rightarrow> 'a ndarray3" where
  "array3 xsss =
     \<lparr>shape3 = (length xsss, width xsss, (case xsss of [] \<Rightarrow> 0 | xss # _ \<Rightarrow> width xss)),
      at3 = (\<lambda>i j k. xsss ! i ! j ! k)\<rparr>"

definition tolist2 :: "'a ndarray2 \<Rightarrow> 'a list list" where
  "tolist2 a =
     (case shape2 a of (n, m) \<Rightarrow> map (\<lambda>i. map (\<lambda>j. at2 a i j) [0..<m]) [0..<n])"

definition row :: "'a ndarray2 \<Rightarrow> nat \<Rightarrow> 'a list" where
  "row a i = map (\<lambda>j. at2 a i j) [0..<snd (shape2 a)]"

datatype exn =
    BroadcastError "nat \<times> nat \<times> nat" "nat \<times> nat \<times> nat"
  | IndexError nat nat
  | DotShapeError nat nat
  | Raised string

text \<open>\<^verbatim>\<open>np.expand_dims(a, -1)\<close>: shape \<open>(B, S)\<close> becomes \<open>(B, S, 1)\<close>.\<close>

definition expand_dims :: "'a ndarray2 \<Rightarrow> 'a ndarray3" where
  "expand_dims a =
     (case shape2 a of (b, s) \<Rightarrow> \<lparr>shape3 = (b, s, 1), at3 = (\<lambda>i j k. at2 a i j)\<rparr>)"

text \<open>\<^verbatim>\<open>.astype(np.float32)\<close> of an integer array.\<close>

definition astype_float32 :: "int ndarray3 \<Rightarrow> f32 ndarray3" where
  "astype_float32 a = \<lparr>shape3 = shape3 a, at3 = (\<lambda>i j k. Fin (of_int (at3 a i j k)))\<rparr>"

text \<open>
  \<^verbatim>\<open>np.broadcast_to(a, shape)\<close>: every axis of \<open>a\<close> has the requested length or length 1
  (then its single entry is repeated); otherwise numpy raises \<^verbatim>\<open>ValueError\<close>.
\<close>

definition fits :: "nat \<Rightarrow> nat \<Rightarrow> bool" where
  "fits d t = (d = t \<or> d = 1)"

definition pick :: "nat \<Rightarrow> nat \<Rightarrow> nat" where
  "pick d i = (if d = 1 then 0 else i)"

definition broadcast_to :: "'a ndarray3 \<Rightarrow> nat \<times> nat \<times> nat \<Rightarrow> exn + 'a ndarray3" where
  "broadcast_to a target =
     (case (shape3 a, target) of ((b, s, h), (b', s', h')) \<Rightarrow>
        if fits b b' \<and> fits s s' \<and> fits h h'
        then Inr \<lparr>shape3 = target,
                  at3 = (\<lambda>i j k. at3 a (pick b i) (pick s j) (pick h k))\<rparr>
        else Inl (BroadcastError (shape3 a) target))"

text \<open>Elementwise product of two arrays of the same shape.\<close>

definition multiply :: "f32 ndarray3 \<Rightarrow> f32 ndarray3 \<Rightarrow> f32 ndarray3" where
  "multiply a b = \<lparr>shape3 = shape3 a, at3 = (\<lambda>i j k. fmul (at3 a i j k) (at3 b i j k))\<rparr>"

text \<open>\<^verbatim>\<open>np.sum(a, axis=1)\<close>: shape \<open>(B, S, H)\<close> becomes \<open>(B, H)\<close>.\<close>

definition sum_axis1 :: "f32 ndarray3 \<Rightarrow> f32 ndarray2" where
  "sum_axis1 a =
     (case shape3 a of (b, s, h) \<Rightarrow>
        \<lparr>shape2 = (b, h), at2 = (\<lambda>i k. fsum (map (\<lambda>j. at3 a i j k) [0..<s]))\<rparr>)"

text \<open>\<^verbatim>\<open>np.clip(a, a_min=lo, a_max=None)\<close> is \<^verbatim>\<open>np.maximum(a, lo)\<close>.\<close>

definition clip_min :: "f32 ndarray2 \<Rightarrow> real \<Rightarrow> f32 ndarray2" where
  "clip_min a lo = \<lparr>shape2 = shape2 a, at2 = (\<lambda>i k. fmaximum (at2 a i k) (Fin lo))\<rparr>"

text \<open>
  \<^verbatim>\<open>a / b\<close> where \<open>b\<close> has the shape of \<open>a\<close>, or one column that is broadcast over the
  columns of \<open>a\<close> (the two shapes the service divides with).
\<close>

definition true_divide :: "f32 ndarray2 \<Rightarrow> f32 ndarray2 \<Rightarrow> f32 ndarray2" where
  "true_divide a b =
     \<lparr>shape2 = shape2 a,
      at2 = (\<lambda>i k. fdiv (at2 a i k) (at2 b i (pick (snd (shape2 b)) k)))\<rparr>"

text \<open>
  \<^verbatim>\<open>np.linalg.norm(a, axis=1, keepdims=True)\<close>: the square root of the sum of the squares
  of each row, shape \<open>(B, 1)\<close>.
\<close>

definition norm_axis1 :: "f32 ndarray2 \<Rightarrow> f32 ndarray2" where
  "norm_axis1 a =
     (case shape2 a of (b, h) \<Rightarrow>
        \<lparr>shape2 = (b, 1),
         at2 = (\<lambda>i k. fsqrt (fsum (map (\<lambda>c. fmul (at2 a i c) (at2 a i c)) [0..<h])))\<rparr>)"

section \<open>Pooling and normalization\<close>

text \<open>
  \<^verbatim>\<open>mean_pooling(token_embeddings, attention_mask)\<close>, line by line. \<open>input_mask_expanded\<close>
  is the mask after \<^verbatim>\<open>expand_dims\<close>, \<^verbatim>\<open>astype\<close> and \<^verbatim>\<open>broadcast_to\<close>; \<open>sum_mask\<close> is the
  divisor, the clipped sum of the mask over the sequence axis. The bound \<open>eps\<close> is the
  number \<open>1e-9\<close> the source writes; on a \<^verbatim>\<open>float32\<close> array numpy clips at the nearest
  \<^verbatim>\<open>float32\<close>, \<open>9007199 / 2 ^ 53\<close>, a rounding that is not modelled.
\<close>

definition eps :: real where
  "eps = 1 / 10 ^ 9"

definition input_mask_expanded :: "f32 ndarray3 \<Rightarrow> int ndarray2 \<Rightarrow> exn + f32 ndarray3" where
  "input_mask_expanded token_embeddings attention_mask =
     broadcast_to (astype_float32 (expand_dims attention_mask)) (shape3 token_embeddings)"

definition sum_mask :: "f32 ndarray3 \<Rightarrow> f32 ndarray2" where
  "sum_mask expanded = clip_min (sum_axis1 expanded) eps"

definition mean_pooling :: "f32 ndarray3 \<Rightarrow> int ndarray2 \<Rightarrow> exn + f32 ndarray2" where
  "mean_pooling token_embeddings attention_mask =
     (case input_mask_expanded token_embeddings attention_mask of
        Inl e \<Rightarrow> Inl e
      | Inr expanded \<Rightarrow>
          let sum_embeddings = sum_axis1 (multiply token_embeddings expanded)
          in Inr (true_divide sum_embeddings (sum_mask expanded)))"

text \<open>
  \<^verbatim>\<open>normalize(embeddings)\<close>; \<open>clipped_norms\<close> is its divisor, the clipped norm of each row.
\<close>

definition clipped_norms :: "f32 ndarray2 \<Rightarrow> f32 ndarray2" where
  "clipped_norms embeddings = clip_min (norm_axis1 embeddings) eps"

definition normalize_embeddings :: "f32 ndarray2 \<Rightarrow> f32 ndarray2" where
  "normalize_embeddings embeddings = true_divide embeddings (clipped_norms embeddings)"

text \<open>The last two steps of \<^verbatim>\<open>get_embeddings\<close>: pool, then normalize.\<close>

definition pool_and_normalize :: "f32 ndarray3 \<Rightarrow> int ndarray2 \<Rightarrow> exn + f32 ndarray2" where
  "pool_and_normalize hidden attention_mask =
     (case mean_pooling hidden attention_mask of
        Inl e \<Rightarrow> Inl e
      | Inr embeddings \<Rightarrow> Inr (normalize_embeddings embeddings))"

section \<open>The embedding pipeline\<close>

text \<open>
  The tokenizer and the ONNX model are external libraries: the service holds them as
  module globals next to \<^verbatim>\<open>model_name\<close>. Each is a function that returns its result or
  the exception it raises. \<open>model\<close> gives \<^verbatim>\<open>outputs.last_hidden_state\<close>.
\<close>

record encoded =
  input_ids :: "int ndarray2"
  attention_mask :: "int ndarray2"

record env =
  model_name :: string
  tokenizer :: "string list \<Rightarrow> exn + encoded"
  model :: "int ndarray2 \<Rightarrow> int ndarray2 \<Rightarrow> exn + f32 ndarray3"

text \<open>\<^verbatim>\<open>USE_E5_PREFIX = "e5" in model_name.lower()\<close>\<close>

definition lower_char :: "char \<Rightarrow> char" where
  "lower_char c =
     (case map_of (zip ''ABCDEFGHIJKLMNOPQRSTUVWXYZ'' ''abcdefghijklmnopqrstuvwxyz'') c of
        Some d \<Rightarrow> d
      | None \<Rightarrow> c)"

fun contains :: "string \<Rightarrow> string \<Rightarrow> bool" where
  "contains sub [] = (sub = [])"
| "contains sub (c # cs) = (take (length sub) (c # cs) = sub \<or> contains sub cs)"

definition USE_E5_PREFIX :: "string \<Rightarrow> bool" where
  "USE_E5_PREFIX name = contains ''e5'' (map lower_char name)"

text \<open>
  The calls into the external libraries are the effects of a request: the pipeline returns
  them in order, the tokenizer's with the list of texts it was given.
\<close>

datatype call = Tokenizer_call "string list" | Model_call

definition get_embeddings ::
    "env \<Rightarrow> string list \<Rightarrow> string \<Rightarrow> call list \<times> (exn + f32 ndarray2)" where
  "get_embeddings env sentences prefix =
     (let prefixed =
            (if USE_E5_PREFIX (model_name env)
             then map (\<lambda>s. prefix @ '': '' @ s) sentences
             else sentences)
      in case tokenizer env prefixed of
           Inl e \<Rightarrow> ([Tokenizer_call prefixed], Inl e)
         | Inr enc \<Rightarrow>
             (case model env (input_ids enc) (attention_mask enc) of
                Inl e \<Rightarrow> ([Tokenizer_call prefixed, Model_call], Inl e)
              | Inr last_hidden_state \<Rightarrow>
                  ([Tokenizer_call prefixed, Model_call],
                   pool_and_normalize last_hidden_state (attention_mask enc))))"

section \<open>The HTTP handlers\<close>

text \<open>
  A request body is the JSON object the API documents: \<^verbatim>\<open>text\<close> a string, \<^verbatim>\<open>texts\<close> a
  list of strings, \<^verbatim>\<open>prefix\<close> a string, each present or absent. A response is a status
  code and a JSON body; the error body of a caught exception \<open>e\<close> is \<^verbatim>\<open>str(e)\<close>.
\<close>

record embed_request =
  req_text :: "string option"
  req_texts :: "string list option"
  req_prefix :: "string option"

record similarity_request =
  text1 :: "string option"
  text2 :: "string option"

datatype body =
    Error_message string
  | Error_str exn
  | Embed_result "f32 list list" nat nat
  | Similarity_result f32 string string

type_synonym response = "nat \<times> body"

definition embed_route :: "env \<Rightarrow> embed_request \<Rightarrow> call list \<times> response" where
  "embed_route env data =
     (case (case req_text data of Some t \<Rightarrow> Some [t] | None \<Rightarrow> req_texts data) of
        None \<Rightarrow> ([], (400, Error_message ''Missing 'text' or 'texts' in request body''))
      | Some texts \<Rightarrow>
          (let prefix = (case req_prefix data of Some p \<Rightarrow> p | None \<Rightarrow> ''passage'')
           in case get_embeddings env texts prefix of
                (calls, Inl e) \<Rightarrow> (calls, (500, Error_str e))
              | (calls, Inr embeddings) \<Rightarrow>
                  (calls, (200, Embed_result (tolist2 embeddings)
                                  (snd (shape2 embeddings)) (length texts)))))"

text \<open>\<^verbatim>\<open>emb[0]\<close> raises \<^verbatim>\<open>IndexError\<close> on an array with no row.\<close>

definition getitem0 :: "f32 ndarray2 \<Rightarrow> exn + f32 list" where
  "getitem0 a = (if fst (shape2 a) = 0 then Inl (IndexError 0 0) else Inr (row a 0))"

text \<open>\<^verbatim>\<open>np.dot\<close> of two vectors raises \<^verbatim>\<open>ValueError\<close> when their lengths differ.\<close>

definition dot :: "f32 list \<Rightarrow> f32 list \<Rightarrow> exn + f32" where
  "dot x y =
     (if length x = length y then Inr (fsum (map2 fmul x y))
      else Inl (DotShapeError (length x) (length y)))"

definition similarity :: "env \<Rightarrow> similarity_request \<Rightarrow> call list \<times> response" where
  "similarity env data =
     (case (text1 data, text2 data) of
        (Some t1, Some t2) \<Rightarrow>
          (case get_embeddings env [t1] ''query'' of
             (c1, Inl e) \<Rightarrow> (c1, (500, Error_str e))
           | (c1, Inr emb1) \<Rightarrow>
               (case get_embeddings env [t2] ''passage'' of
                  (c2, Inl e) \<Rightarrow> (c1 @ c2, (500, Error_str e))
                | (c2, Inr emb2) \<Rightarrow>
                    (c1 @ c2,
                     case getitem0 emb1 of
                       Inl e \<Rightarrow> (500, Error_str e)
                     | Inr v1 \<Rightarrow>
                         (case getitem0 emb2 of
                            Inl e \<Rightarrow> (500, Error_str e)
                          | Inr v2 \<Rightarrow>
                              (case dot v1 v2 of
                                 Inl e \<Rightarrow> (500, Error_str e)
                               | Inr s \<Rightarrow> (200, Similarity_result s t1 t2))))))
      | _ \<Rightarrow> ([], (400, Error_message ''Missing 'text1' or 'text2' in request body'')))"

text \<open>The score of a response, when it has one.\<close>

fun score :: "response \<Rightarrow> f32 option" where
  "score (_, Similarity_result s _ _) = Some s"
| "score _ = None"

text \<open>
  The score \<^verbatim>\<open>similarity\<close> computes from the results of its two pipeline runs, when both
  return and the dot product is defined.
\<close>

definition pair_score :: "exn + f32 ndarray2 \<Rightarrow> exn + f32 ndarray2 \<Rightarrow> f32 option" where
  "pair_score r1 r2 =
     (case r1 of
        Inl e \<Rightarrow> None
      | Inr emb1 \<Rightarrow>
          (case r2 of
             Inl e \<Rightarrow> None
           | Inr emb2 \<Rightarrow>
               (case getitem0 emb1 of
                  Inl e \<Rightarrow> None
                | Inr v1 \<Rightarrow>
                    (case getitem0 emb2 of
                       Inl e \<Rightarrow> None
                     | Inr v2 \<Rightarrow>
                         (case dot v1 v2 of Inl e \<Rightarrow> None | Inr s \<Rightarrow> Some s)))))"

section \<open>The artifact cache\<close>

text \<open>
  At start-up the module looks for the converted model under \<^verbatim>\<open>onnx_path\<close>, loads it when
  the path exists, and otherwise converts the source model, creates the directory and
  saves the result there. The file system is the set of paths that exist;
  \<^verbatim>\<open>from_pretrained\<close> (with its \<^verbatim>\<open>export\<close> flag) and \<^verbatim>\<open>save_pretrained\<close> are the external
  library, and \<open>conversions\<close> counts the calls that convert.
\<close>

definition onnx_path :: "string \<Rightarrow> string" where
  "onnx_path name =
     ''/app/cache/onnx/'' @ map (\<lambda>c. if c = CHR ''/'' then CHR ''_'' else c) name"

record 'm library =
  from_pretrained :: "string \<Rightarrow> bool \<Rightarrow> exn + 'm"
  save_pretrained :: "'m \<Rightarrow> string \<Rightarrow> exn option"

record world =
  existing :: "string set"
  conversions :: nat

definition ensure_artifact ::
    "'m library \<Rightarrow> world \<Rightarrow> string \<Rightarrow> world \<times> (exn + string \<times> 'm)" where
  "ensure_artifact lib w name =
     (let p = onnx_path name
      in if p \<in> existing w
         then (case from_pretrained lib p False of
                 Inl e \<Rightarrow> (w, Inl e)
               | Inr m \<Rightarrow> (w, Inr (p, m)))
         else (let w1 = w\<lparr>conversions := conversions w + 1\<rparr>
               in case from_pretrained lib name True of
                    Inl e \<Rightarrow> (w1, Inl e)
                  | Inr m \<Rightarrow>
                      (let w2 = w1\<lparr>existing := insert p (existing w1)\<rparr>
                       in case save_pretrained lib m p of
                            Some e \<Rightarrow> (w2, Inl e)
                          | None \<Rightarrow> (w2, Inr (p, m)))))"

section \<open>Pooling as the specification words it\<close>

text \<open>
  Mean pooling, entry \<open>k\<close> of batch row \<open>i\<close>: the hidden states times the mask, summed over
  the sequence axis, divided by the sum of the mask over the sequence axis clamped below at
  \<open>1e-9\<close>. L2 normalization of a vector: each entry divided by the Euclidean norm clamped
  below at \<open>1e-9\<close>.
\<close>

definition spec_mean_pool :: "f32 ndarray3 \<Rightarrow> int ndarray2 \<Rightarrow> nat \<Rightarrow> nat \<Rightarrow> f32" where
  "spec_mean_pool hidden m i k =
     (let s = fst (snd (shape3 hidden));
          masked_sum = fsum (map (\<lambda>j. fmul (at3 hidden i j k) (Fin (of_int (at2 m i j)))) [0..<s]);
          mask_sum = fsum (map (\<lambda>j. Fin (of_int (at2 m i j))) [0..<s])
      in fdiv masked_sum (fmaximum mask_sum (Fin (1 / 10 ^ 9))))"

definition spec_l2_normalize :: "f32 list \<Rightarrow> f32 list" where
  "spec_l2_normalize v =
     (let n = fsqrt (fsum (map (\<lambda>x. fmul x x) v))
      in map (\<lambda>x. fdiv x (fmaximum n (Fin (1 / 10 ^ 9)))) v)"

section \<open>Stand-ins for the external libraries\<close>

text \<open>
  A tokenizer that rejects the empty batch and otherwise gives every text one token, the
  length of the text; a model whose hidden state is \<open>(1, 0)\<close> for a token below 10 and
  \<open>(0, 1)\<close> otherwise; a library that converts, loads and saves without failing.
\<close>

definition toy_tokenizer :: "string list \<Rightarrow> exn + encoded" where
  "toy_tokenizer batch =
     (if batch = [] then Inl (Raised ''list index out of range'')
      else Inr \<lparr>input_ids = array2 (map (\<lambda>t. [int (length t)]) batch),
                attention_mask = array2 (map (\<lambda>t. [1]) batch)\<rparr>)"

definition toy_model :: "int ndarray2 \<Rightarrow> int ndarray2 \<Rightarrow> exn + f32 ndarray3" where
  "toy_model ids msk =
     Inr \<lparr>shape3 = (fst (shape2 ids), snd (shape2 ids), 2),
          at3 = (\<lambda>i j k. if (at2 ids i j < 10) = (k = 0) then Fin 1 else Fin 0)\<rparr>"

definition toy_env :: "string \<Rightarrow> env" where
  "toy_env name = \<lparr>model_name = name, tokenizer = toy_tokenizer, model = toy_model\<rparr>"

definition toy_library :: "string library" where
  "toy_library = \<lparr>from_pretrained = (\<lambda>p export. Inr p), save_pretrained = (\<lambda>m p. None)\<rparr>"

section \<open>Evaluation and entry lemmas\<close>

lemma upt_2: "[0..<2] = [0, 1]"
  by (simp add: upt_rec)

lemma upt_3: "[0..<3] = [0, 1, 2]"
  by (simp add: upt_rec)

lemmas numpy_defs = broadcast_to_def astype_float32_def expand_dims_def fits_def
  sum_axis1_def multiply_def clip_min_def true_divide_def norm_axis1_def

lemmas pooling_defs = pool_and_normalize_def mean_pooling_def input_mask_expanded_def
  sum_mask_def normalize_embeddings_def clipped_norms_def

lemma pick_lt: "i < d \<Longrightarrow> pick d i = i"
  by (auto simp: pick_def)

lemma map_upt_cong: "(\<And>j. j < s \<Longrightarrow> f j = g j) \<Longrightarrow> map f [0..<s] = map g [0..<s]"
  by (rule map_cong) auto

lemma input_mask_expanded_entry:
  assumes "shape3 hidden = (b, s, h)" "shape2 m = (b, s)"
  shows "\<exists>M. input_mask_expanded hidden m = Inr M \<and> shape3 M = (b, s, h) \<and>
           (\<forall>i<b. \<forall>j<s. \<forall>k. at3 M i j k = Fin (of_int (at2 m i j)))"
  using assms by (simp add: input_mask_expanded_def numpy_defs pick_lt)

lemma sum_mask_entry:
  assumes "shape3 M = (b, s, h)"
    and "\<forall>i<b. \<forall>j<s. \<forall>k. at3 M i j k = Fin (of_int (at2 m i j))"
    and "i < b"
  shows "at2 (sum_mask M) i k =
           fmaximum (fsum (map (\<lambda>j. Fin (of_int (at2 m i j))) [0..<s])) (Fin eps)"
proof -
  have "map (\<lambda>j. at3 M i j k) [0..<s] = map (\<lambda>j. Fin (of_int (at2 m i j))) [0..<s]"
    by (rule map_upt_cong) (simp add: assms)
  with assms(1) show ?thesis
    by (simp only: sum_mask_def sum_axis1_def clip_min_def split_conv ndarray2.simps)
qed

lemma mean_pooling_entry:
  assumes "shape3 hidden = (b, s, h)" "shape2 m = (b, s)"
  shows "\<exists>pooled. mean_pooling hidden m = Inr pooled \<and> shape2 pooled = (b, h) \<and>
     (\<forall>i<b. \<forall>k<h. at2 pooled i k = spec_mean_pool hidden m i k)"
proof -
  obtain M where M: "input_mask_expanded hidden m = Inr M" "shape3 M = (b, s, h)"
    and at: "\<forall>i<b. \<forall>j<s. \<forall>k. at3 M i j k = Fin (of_int (at2 m i j))"
    using input_mask_expanded_entry [OF assms] by blast
  have a: "map (\<lambda>j. fmul (at3 hidden i j k) (at3 M i j k)) [0..<s]
         = map (\<lambda>j. fmul (at3 hidden i j k) (Fin (of_int (at2 m i j)))) [0..<s]"
    if "i < b" for i k
    by (rule map_upt_cong) (simp add: at that)
  show ?thesis
    using assms M sum_mask_entry [OF M(2) at]
    by (simp add: mean_pooling_def sum_axis1_def multiply_def
        true_divide_def spec_mean_pool_def eps_def Let_def pick_lt a)
qed

lemma normalize_entry:
  assumes "shape2 x = (b, h)"
  shows "shape2 (normalize_embeddings x) = (b, h) \<and>
     (\<forall>i k. at2 (clipped_norms x) i 0 =
              fmaximum (fsqrt (fsum (map (\<lambda>c. fmul (at2 x i c) (at2 x i c)) [0..<h]))) (Fin eps)
          \<and> at2 (normalize_embeddings x) i k = fdiv (at2 x i k) (at2 (clipped_norms x) i 0))"
  using assms
  by (simp add: normalize_embeddings_def clipped_norms_def norm_axis1_def clip_min_def
      true_divide_def pick_def)

lemma normalize_rows:
  assumes "shape2 x = (b, h)"
  shows "tolist2 (normalize_embeddings x) = map spec_l2_normalize (tolist2 x)"
  using assms normalize_entry [OF assms]
  by (simp add: tolist2_def spec_l2_normalize_def comp_def eps_def Let_def)

lemma sqrt8_lower: "(28284 / 10000 :: real) \<le> sqrt 8"
  by (rule real_le_rsqrt) (simp add: power2_eq_square)

lemma sqrt8_upper: "sqrt 8 \<le> (28285 / 10000 :: real)"
  by (rule real_le_lsqrt) (simp_all add: power2_eq_square)

lemma two_over_sqrt8: "\<bar>2 / sqrt 8 - 7071 / 10000\<bar> \<le> (1 / 10000 :: real)"
proof -
  have pos: "0 < sqrt (8::real)" by simp
  have "(7070 / 10000 :: real) \<le> 2 / (28285 / 10000)" by simp
  also have "\<dots> \<le> 2 / sqrt (8::real)"
    using sqrt8_upper pos by (intro divide_left_mono) auto
  finally have lo: "(7070 / 10000 :: real) \<le> 2 / sqrt 8" .
  have "2 / sqrt (8::real) \<le> 2 / (28284 / 10000)"
    using sqrt8_lower pos by (intro divide_left_mono) auto
  also have "\<dots> \<le> (7072 / 10000 :: real)" by simp
  finally have hi: "2 / sqrt (8::real) \<le> 7072 / 10000" .
  show ?thesis using lo hi by linarith
qed

section \<open>Pooling and normalization: the claims\<close>

text \<open>
  Claim C1. \<open>pool_and_normalize\<close> is mean pooling followed by L2 normalization: for a hidden
  state tensor of shape \<open>(b, s, h)\<close> and a mask of shape \<open>(b, s)\<close> both steps return, entry
  \<open>(i, k)\<close> of the pooled array is the sum over the sequence axis of the hidden states times
  the mask, divided by the mask sum clamped below at \<open>1e-9\<close>, and every output row is the
  pooled row divided by its Euclidean norm clamped below at \<open>1e-9\<close>. For the tensor
  \<open>[[[1,1],[3,3],[0,0]]]\<close> with mask \<open>[1,1,0]\<close> mean pooling yields \<open>[2,2]\<close> and the output
  is \<open>[v, v]\<close> with \<open>v\<close> within \<open>1e-4\<close> of \<open>0.7071\<close>.
\<close>

theorem pool_and_normalize_mean_then_l2:
  "(shape3 hidden = (b, s, h) \<and> shape2 m = (b, s) \<longrightarrow>
      (\<exists>pooled out.
          mean_pooling hidden m = Inr pooled \<and> pool_and_normalize hidden m = Inr out \<and>
          tolist2 pooled = map (\<lambda>i. map (\<lambda>k. spec_mean_pool hidden m i k) [0..<h]) [0..<b] \<and>
          tolist2 out = map spec_l2_normalize (tolist2 pooled)))
   \<and> (\<exists>pooled out v.
          mean_pooling (array3 [[[Fin 1, Fin 1], [Fin 3, Fin 3], [Fin 0, Fin 0]]])
            (array2 [[1, 1, 0]]) = Inr pooled \<and>
          tolist2 pooled = [[Fin 2, Fin 2]] \<and>
          pool_and_normalize (array3 [[[Fin 1, Fin 1], [Fin 3, Fin 3], [Fin 0, Fin 0]]])
            (array2 [[1, 1, 0]]) = Inr out \<and>
          tolist2 out = [[Fin v, Fin v]] \<and> \<bar>v - 7071 / 10000\<bar> \<le> 1 / 10000)"
proof (intro conjI impI)
  assume shapes: "shape3 hidden = (b, s, h) \<and> shape2 m = (b, s)"
  then obtain pooled where p: "mean_pooling hidden m = Inr pooled" "shape2 pooled = (b, h)"
    and at: "\<forall>i<b. \<forall>k<h. at2 pooled i k = spec_mean_pool hidden m i k"
    using mean_pooling_entry [of hidden b s h m] by blast
  have "tolist2 pooled = map (\<lambda>i. map (\<lambda>k. spec_mean_pool hidden m i k) [0..<h]) [0..<b]"
    using p(2) at by (simp add: tolist2_def)
  moreover have "pool_and_normalize hidden m = Inr (normalize_embeddings pooled)"
    using p(1) by (simp add: pool_and_normalize_def)
  ultimately show "\<exists>pooled out.
      mean_pooling hidden m = Inr pooled \<and> pool_and_normalize hidden m = Inr out \<and>
      tolist2 pooled = map (\<lambda>i. map (\<lambda>k. spec_mean_pool hidden m i k) [0..<h]) [0..<b] \<and>
      tolist2 out = map spec_l2_normalize (tolist2 pooled)"
    using p normalize_rows [OF p(2)] by simp
next
  let ?hid = "array3 [[[Fin 1, Fin 1], [Fin 3, Fin 3], [Fin 0, Fin 0]]]"
  let ?msk = "array2 [[1, 1, 0 :: int]]"
  have sh: "shape3 ?hid = (1, 3, 2)" "shape2 ?msk = (1, 3)"
    by (simp_all add: array3_def array2_def width_def)
  obtain pooled where p: "mean_pooling ?hid ?msk = Inr pooled" "shape2 pooled = (1, 2)"
    using mean_pooling_entry [OF sh] by blast
  have pl: "tolist2 pooled = [[Fin 2, Fin 2]]"
    using p
    by (simp add: pooling_defs numpy_defs array3_def array2_def width_def tolist2_def pick_def
        fsum_def eps_def upt_2 upt_3 Let_def, auto simp: upt_2)
  have out: "pool_and_normalize ?hid ?msk = Inr (normalize_embeddings pooled)"
    using p(1) by (simp add: pool_and_normalize_def)
  have mx: "max (sqrt 8) (1 / 1000000000) = sqrt (8::real)"
    using sqrt8_lower by (simp add: max_def)
  have "tolist2 (normalize_embeddings pooled) = [[Fin (2 / sqrt 8), Fin (2 / sqrt 8)]]"
    using normalize_rows [OF p(2)] pl by (simp add: spec_l2_normalize_def fsum_def mx)
  then show "\<exists>pooled out v.
      mean_pooling ?hid ?msk = Inr pooled \<and> tolist2 pooled = [[Fin 2, Fin 2]] \<and>
      pool_and_normalize ?hid ?msk = Inr out \<and>
      tolist2 out = [[Fin v, Fin v]] \<and> \<bar>v - 7071 / 10000\<bar> \<le> 1 / 10000"
    using p(1) pl out two_over_sqrt8 by blast
qed

theorem pool_and_normalize_mean_then_l2_witness:
  "shape3 (array3 [[[Fin 1, Fin 1], [Fin 3, Fin 3], [Fin 0, Fin 0]]]) = (1, 3, 2) \<and>
   shape2 (array2 [[1, 1, 0 :: int]]) = (1, 3) \<and>
   (\<exists>pooled out.
      mean_pooling (array3 [[[Fin 1, Fin 1], [Fin 3, Fin 3], [Fin 0, Fin 0]]])
        (array2 [[1, 1, 0]]) = Inr pooled \<and>
      pool_and_normalize (array3 [[[Fin 1, Fin 1], [Fin 3, Fin 3], [Fin 0, Fin 0]]])
        (array2 [[1, 1, 0]]) = Inr out \<and>
      tolist2 pooled =
        [[spec_mean_pool (array3 [[[Fin 1, Fin 1], [Fin 3, Fin 3], [Fin 0, Fin 0]]])
            (array2 [[1, 1, 0]]) 0 0,
          spec_mean_pool (array3 [[[Fin 1, Fin 1], [Fin 3, Fin 3], [Fin 0, Fin 0]]])
            (array2 [[1, 1, 0]]) 0 1]] \<and>
      tolist2 out = map spec_l2_normalize (tolist2 pooled))"
proof -
  have sh: "shape3 (array3 [[[Fin 1, Fin 1], [Fin 3, Fin 3], [Fin 0, Fin 0]]]) = (1, 3, 2) \<and>
            shape2 (array2 [[1, 1, 0 :: int]]) = (1, 3)"
    by (simp add: array3_def array2_def width_def)
  show ?thesis
    using sh pool_and_normalize_mean_then_l2
      [of "array3 [[[Fin 1, Fin 1], [Fin 3, Fin 3], [Fin 0, Fin 0]]]" 1 3 2
          "array2 [[1, 1, 0]]"]
    by (simp add: upt_2)
qed

section \<open>Finite entries\<close>

lemma foldl_fadd_Fin:
  "foldl fadd (Fin a) (map (\<lambda>j. Fin (f j)) js) = Fin (a + sum_list (map f js))"
  by (induction js arbitrary: a) (auto simp: add.assoc)

lemma fsum_Fin: "fsum (map (\<lambda>j. Fin (f j)) js) = Fin (sum_list (map f js))"
  by (simp add: fsum_def foldl_fadd_Fin)

lemma eps_pos: "0 < eps"
  by (simp add: eps_def)

lemma max_eps_pos: "0 < max a eps"
  using eps_pos by (simp add: less_max_iff_disj)

lemma fmul_finite: "is_finite x \<Longrightarrow> fmul x (Fin y) = Fin (fin_value x * y)"
  by (cases x) auto

lemma fmul_square: "is_finite x \<Longrightarrow> fmul x x = Fin (fin_value x * fin_value x)"
  by (cases x) auto

lemma spec_mean_pool_finite:
  assumes "shape3 hidden = (b, s, h)" and "\<forall>j<s. is_finite (at3 hidden i j k)"
  shows "spec_mean_pool hidden m i k =
           Fin ((\<Sum>j\<leftarrow>[0..<s]. fin_value (at3 hidden i j k) * of_int (at2 m i j))
                / max (\<Sum>j\<leftarrow>[0..<s]. of_int (at2 m i j)) eps)"
proof -
  have eq: "map (\<lambda>j. fmul (at3 hidden i j k) (Fin (of_int (at2 m i j)))) [0..<s]
      = map (\<lambda>j. Fin (fin_value (at3 hidden i j k) * of_int (at2 m i j))) [0..<s]"
    by (rule map_upt_cong) (simp add: assms(2) fmul_finite)
  have nz: "max (\<Sum>j\<leftarrow>[0..<s]. real_of_int (at2 m i j)) eps \<noteq> 0"
    using max_eps_pos [of "\<Sum>j\<leftarrow>[0..<s]. real_of_int (at2 m i j)"] by simp
  have "spec_mean_pool hidden m i k =
          fdiv (fsum (map (\<lambda>j. fmul (at3 hidden i j k) (Fin (of_int (at2 m i j)))) [0..<s]))
               (fmaximum (fsum (map (\<lambda>j. Fin (of_int (at2 m i j))) [0..<s])) (Fin eps))"
    using assms(1) by (simp add: spec_mean_pool_def eps_def Let_def)
  also have "\<dots> = Fin ((\<Sum>j\<leftarrow>[0..<s]. fin_value (at3 hidden i j k) * of_int (at2 m i j))
                / max (\<Sum>j\<leftarrow>[0..<s]. of_int (at2 m i j)) eps)"
    by (simp add: eq fsum_Fin nz)
  finally show ?thesis .
qed

lemma clipped_norm_finite:
  assumes "shape2 x = (b, h)" and "\<forall>c<h. is_finite (at2 x i c)"
  shows "at2 (clipped_norms x) i 0 =
           Fin (max (sqrt (\<Sum>c\<leftarrow>[0..<h]. fin_value (at2 x i c) * fin_value (at2 x i c))) eps)"
proof -
  have sq: "map (\<lambda>c. fmul (at2 x i c) (at2 x i c)) [0..<h]
      = map (\<lambda>c. Fin (fin_value (at2 x i c) * fin_value (at2 x i c))) [0..<h]"
    by (rule map_upt_cong) (simp add: assms(2) fmul_square)
  have nonneg: "0 \<le> (\<Sum>c\<leftarrow>[0..<h]. fin_value (at2 x i c) * fin_value (at2 x i c))"
    by (rule sum_list_nonneg) auto
  show ?thesis
    using normalize_entry [OF assms(1)] nonneg by (simp add: sq fsum_Fin not_less)
qed

lemma fsum_replicate_zero: "fsum (replicate n (Fin 0)) = Fin 0"
  by (induction n) (simp_all add: fsum_def)

lemma spec_mean_pool_padding:
  assumes "shape3 hidden = (b, s, h)" and "\<forall>j<s. is_finite (at3 hidden i j k)"
    and "\<forall>j<s. at2 m i j = 0"
  shows "spec_mean_pool hidden m i k = Fin 0"
proof -
  have "map (\<lambda>j. fin_value (at3 hidden i j k) * of_int (at2 m i j)) [0..<s]
      = map (\<lambda>j. 0) [0..<s]"
    by (rule map_upt_cong) (simp add: assms(3))
  then have "(\<Sum>j\<leftarrow>[0..<s]. fin_value (at3 hidden i j k) * of_int (at2 m i j)) = 0"
    by (simp only: sum_list_0)
  then show ?thesis
    using spec_mean_pool_finite [OF assms(1,2), of m] by simp
qed

lemma fmaximum_nonzero: "0 < lo \<Longrightarrow> fmaximum x (Fin lo) \<noteq> Fin 0"
  by (cases x) auto

lemma clip_min_nonzero: "at2 (clip_min a eps) i k \<noteq> Fin 0"
  using eps_pos by (simp add: clip_min_def fmaximum_nonzero)

lemma fmaximum_positive: "0 < lo \<Longrightarrow> fmaximum x (Fin lo) = Fin d \<Longrightarrow> 0 < d"
  by (cases x) (auto simp: less_max_iff_disj)

lemma clip_min_positive: "at2 (clip_min a eps) i k = Fin d \<Longrightarrow> 0 < d"
  using eps_pos by (simp add: clip_min_def fmaximum_positive)

lemma mean_pooling_divides_by_sum_mask:
  "mean_pooling hidden m = Inr pooled \<Longrightarrow>
     \<exists>M. input_mask_expanded hidden m = Inr M \<and>
         pooled = true_divide (sum_axis1 (multiply hidden M)) (sum_mask M)"
  by (cases "input_mask_expanded hidden m") (simp_all add: mean_pooling_def)

lemma normalize_zero_row:
  assumes "shape2 x = (b, h)" and "\<forall>c<h. at2 x i c = Fin 0"
  shows "\<forall>k<h. at2 (normalize_embeddings x) i k = Fin 0"
proof (intro allI impI)
  fix k assume k: "k < h"
  have fin: "\<forall>c<h. is_finite (at2 x i c)"
    by (simp add: assms(2))
  have "at2 (normalize_embeddings x) i k = fdiv (at2 x i k) (at2 (clipped_norms x) i 0)"
    using normalize_entry [OF assms(1)] by simp
  also have "\<dots> = Fin 0"
    using clipped_norm_finite [OF assms(1) fin] assms(2) k
      max_eps_pos [of "sqrt (\<Sum>c\<leftarrow>[0..<h]. fin_value (at2 x i c) * fin_value (at2 x i c))"]
    by simp
  finally show "at2 (normalize_embeddings x) i k = Fin 0" .
qed

lemma pooling_padding_row:
  assumes "shape3 hidden = (b, s, h)" and "shape2 m = (b, s)" and "i < b"
    and "\<forall>j<s. at2 m i j = 0" and "\<forall>j<s. \<forall>k<h. is_finite (at3 hidden i j k)"
  shows "\<exists>p. mean_pooling hidden m = Inr p \<and> (\<forall>k<h. at2 p i k = Fin 0)"
proof -
  obtain p where p: "mean_pooling hidden m = Inr p"
    and atp: "\<forall>i<b. \<forall>k<h. at2 p i k = spec_mean_pool hidden m i k"
    using mean_pooling_entry [OF assms(1,2)] by blast
  have "at2 p i k = Fin 0" if "k < h" for k
  proof -
    have "\<forall>j<s. is_finite (at3 hidden i j k)"
      using assms(5) that by blast
    then show ?thesis
      using spec_mean_pool_padding [OF assms(1) _ assms(4), of k] atp assms(3) that by simp
  qed
  then show ?thesis
    using p by blast
qed

text \<open>
  Claim C6, as amended. Whatever the input, neither division of the pipeline is by zero:
  mean pooling divides by \<open>sum_mask\<close> and normalization by \<open>clipped_norms\<close>, and an entry of
  either, being clipped below at \<open>1e-9\<close>, is never zero (when it is a finite number it is
  positive). So on the degenerate inputs the clamps are there for, nothing is divided by
  zero: an all-padding row of finite hidden states pools to the zero vector, and a zero
  pooled vector is normalized to the zero vector, not to NaN.
\<close>

theorem divisors_never_zero:
  "(mean_pooling hidden m = Inr pooled \<longrightarrow>
      (\<exists>M. input_mask_expanded hidden m = Inr M \<and>
           pooled = true_divide (sum_axis1 (multiply hidden M)) (sum_mask M))) \<and>
   normalize_embeddings embeddings = true_divide embeddings (clipped_norms embeddings) \<and>
   at2 (sum_mask expanded) i k \<noteq> Fin 0 \<and>
   (\<forall>d. at2 (sum_mask expanded) i k = Fin d \<longrightarrow> 0 < d) \<and>
   at2 (clipped_norms embeddings) i k \<noteq> Fin 0 \<and>
   (\<forall>d. at2 (clipped_norms embeddings) i k = Fin d \<longrightarrow> 0 < d) \<and>
   (shape2 x = (b, h) \<and> (\<forall>c<h. at2 x i c = Fin 0) \<longrightarrow>
      (\<forall>k<h. at2 (normalize_embeddings x) i k = Fin 0)) \<and>
   (shape3 hidden = (b, s, h) \<and> shape2 m = (b, s) \<and> i < b \<and>
    (\<forall>j<s. at2 m i j = 0) \<and> (\<forall>j<s. \<forall>k<h. is_finite (at3 hidden i j k)) \<longrightarrow>
      (\<exists>p. mean_pooling hidden m = Inr p \<and> (\<forall>k<h. at2 p i k = Fin 0)))"
proof (intro conjI)
  show "mean_pooling hidden m = Inr pooled \<longrightarrow>
      (\<exists>M. input_mask_expanded hidden m = Inr M \<and>
           pooled = true_divide (sum_axis1 (multiply hidden M)) (sum_mask M))"
    using mean_pooling_divides_by_sum_mask by blast
  show "normalize_embeddings embeddings = true_divide embeddings (clipped_norms embeddings)"
    by (simp add: normalize_embeddings_def)
  show "at2 (sum_mask expanded) i k \<noteq> Fin 0"
    by (simp add: sum_mask_def clip_min_nonzero)
  show "\<forall>d. at2 (sum_mask expanded) i k = Fin d \<longrightarrow> 0 < d"
    using clip_min_positive by (simp add: sum_mask_def)
  show "at2 (clipped_norms embeddings) i k \<noteq> Fin 0"
    by (simp add: clipped_norms_def clip_min_nonzero)
  show "\<forall>d. at2 (clipped_norms embeddings) i k = Fin d \<longrightarrow> 0 < d"
    using clip_min_positive by (simp add: clipped_norms_def)
  show "shape2 x = (b, h) \<and> (\<forall>c<h. at2 x i c = Fin 0) \<longrightarrow>
      (\<forall>k<h. at2 (normalize_embeddings x) i k = Fin 0)"
    using normalize_zero_row [of x b h i] by blast
  show "shape3 hidden = (b, s, h) \<and> shape2 m = (b, s) \<and> i < b \<and>
    (\<forall>j<s. at2 m i j = 0) \<and> (\<forall>j<s. \<forall>k<h. is_finite (at3 hidden i j k)) \<longrightarrow>
      (\<exists>p. mean_pooling hidden m = Inr p \<and> (\<forall>k<h. at2 p i k = Fin 0))"
    using pooling_padding_row [of hidden b s h m i] by blast
qed

theorem divisors_never_zero_witness:
  "\<exists>M pooled.
     input_mask_expanded (array3 [[[Fin 5]]]) (array2 [[0]]) = Inr M \<and>
     mean_pooling (array3 [[[Fin 5]]]) (array2 [[0]]) = Inr pooled \<and>
     pooled = true_divide (sum_axis1 (multiply (array3 [[[Fin 5]]]) M)) (sum_mask M) \<and>
     (\<exists>d. at2 (sum_mask M) 0 0 = Fin d \<and> 0 < d) \<and>
     (\<exists>d. at2 (clipped_norms pooled) 0 0 = Fin d \<and> 0 < d) \<and>
     at2 pooled 0 0 = Fin 0 \<and> at2 (normalize_embeddings pooled) 0 0 = Fin 0"
proof -
  let ?hid = "array3 [[[Fin 5]]]"
  let ?msk = "array2 [[0 :: int]]"
  have sh: "shape3 ?hid = (1, 1, 1)" "shape2 ?msk = (1, 1)"
    by (simp_all add: array3_def array2_def width_def)
  have pad: "\<forall>j<1. at2 ?msk 0 j = 0"
    by (simp add: array2_def)
  have fin: "\<forall>j<1. \<forall>k<1. is_finite (at3 ?hid 0 j k)"
    by (simp add: array3_def)
  obtain pooled where p: "mean_pooling ?hid ?msk = Inr pooled" "shape2 pooled = (1, 1)"
    using mean_pooling_entry [OF sh] by blast
  obtain M where M: "input_mask_expanded ?hid ?msk = Inr M" "shape3 M = (1, 1, 1)"
    and atM: "\<forall>i<1. \<forall>j<1. \<forall>k. at3 M i j k = Fin (of_int (at2 ?msk i j))"
    using input_mask_expanded_entry [OF sh] by blast
  note inst = divisors_never_zero [where hidden = ?hid and m = ?msk and pooled = pooled
      and embeddings = pooled and expanded = M and x = pooled
      and b = 1 and s = 1 and h = 1 and i = 0 and k = 0]
  note c1 = inst [THEN conjunct1]
  note r1 = inst [THEN conjunct2]
  note r2 = r1 [THEN conjunct2]
  note r3 = r2 [THEN conjunct2]
  note c4 = r3 [THEN conjunct1]
  note r4 = r3 [THEN conjunct2]
  note r5 = r4 [THEN conjunct2]
  note c6 = r5 [THEN conjunct1]
  note r6 = r5 [THEN conjunct2]
  note c7 = r6 [THEN conjunct1]
  note c8 = r6 [THEN conjunct2]
  have "\<exists>M'. input_mask_expanded ?hid ?msk = Inr M' \<and>
      pooled = true_divide (sum_axis1 (multiply ?hid M')) (sum_mask M')"
    using c1 p(1) by (rule mp)
  then have div: "pooled = true_divide (sum_axis1 (multiply ?hid M)) (sum_mask M)"
    unfolding M(1) by simp
  have "shape3 ?hid = (1, 1, 1) \<and> shape2 ?msk = (1, 1) \<and> (0::nat) < 1 \<and>
      (\<forall>j<1. at2 ?msk 0 j = 0) \<and> (\<forall>j<1. \<forall>k<1. is_finite (at3 ?hid 0 j k))"
    by (intro conjI sh pad fin) simp
  with c8 have "\<exists>q. mean_pooling ?hid ?msk = Inr q \<and> (\<forall>k<1. at2 q 0 k = Fin 0)"
    by (rule mp)
  then have zero: "\<forall>c<1. at2 pooled 0 c = Fin 0"
    unfolding p(1) by simp
  then have z0: "at2 pooled 0 0 = Fin 0"
    by simp
  have "shape2 pooled = (1, 1) \<and> (\<forall>c<1. at2 pooled 0 c = Fin 0)"
    by (intro conjI p(2) zero)
  with c7 have "\<forall>k<1. at2 (normalize_embeddings pooled) 0 k = Fin 0"
    by (rule mp)
  then have n0: "at2 (normalize_embeddings pooled) 0 0 = Fin 0"
    by simp
  have "at2 (sum_mask M) 0 0 =
      fmaximum (fsum (map (\<lambda>j. Fin (of_int (at2 ?msk 0 j))) [0..<1])) (Fin eps)"
    by (rule sum_mask_entry [OF M(2) atM]) simp
  then have v1: "at2 (sum_mask M) 0 0 = Fin (max 0 eps)"
    by (simp add: array2_def fsum_def)
  then have "0 < max 0 eps"
    using c4 by blast
  then have d1: "\<exists>d. at2 (sum_mask M) 0 0 = Fin d \<and> 0 < d"
    using v1 by blast
  have "\<forall>c<1. is_finite (at2 pooled 0 c)"
    using zero by simp
  then obtain d where v2: "at2 (clipped_norms pooled) 0 0 = Fin d"
    using clipped_norm_finite [OF p(2)] by blast
  then have "0 < d"
    using c6 by blast
  then have d2: "\<exists>d. at2 (clipped_norms pooled) 0 0 = Fin d \<and> 0 < d"
    using v2 by blast
  have "input_mask_expanded ?hid ?msk = Inr M \<and>
     mean_pooling ?hid ?msk = Inr pooled \<and>
     pooled = true_divide (sum_axis1 (multiply ?hid M)) (sum_mask M) \<and>
     (\<exists>d. at2 (sum_mask M) 0 0 = Fin d \<and> 0 < d) \<and>
     (\<exists>d. at2 (clipped_norms pooled) 0 0 = Fin d \<and> 0 < d) \<and>
     at2 pooled 0 0 = Fin 0 \<and> at2 (normalize_embeddings pooled) 0 0 = Fin 0"
    by (intro conjI M(1) p(1) div d1 d2 z0 n0)
  then show ?thesis
    by (intro exI [where x = M] exI [where x = pooled])
qed

theorem pool_and_normalize_nan_counterexample:
  "map_sum id tolist2 (pool_and_normalize (array3 [[[NaN]]]) (array2 [[1]])) = Inr [[NaN]]"
  by (simp add: pooling_defs numpy_defs array3_def array2_def width_def tolist2_def pick_def fsum_def)

text \<open>
  Claim C10, as amended. For a batch row whose attention mask is all zeros and whose hidden
  states are finite, the output row is the all-zero vector, so its L2 norm is 0 and not 1.
\<close>

theorem all_padding_row_is_zero:
  assumes "shape3 hidden = (b, s, h)" and "shape2 m = (b, s)" and "i < b"
    and "\<forall>j<s. at2 m i j = 0"
    and "\<forall>j<s. \<forall>k<h. is_finite (at3 hidden i j k)"
  shows "\<exists>out. pool_and_normalize hidden m = Inr out \<and>
           row out i = replicate h (Fin 0) \<and>
           fsqrt (fsum (map (\<lambda>x. fmul x x) (row out i))) = Fin 0"
proof -
  obtain pooled where p: "mean_pooling hidden m = Inr pooled" "shape2 pooled = (b, h)"
    and atp: "\<forall>i<b. \<forall>k<h. at2 pooled i k = spec_mean_pool hidden m i k"
    using mean_pooling_entry [OF assms(1,2)] by blast
  let ?out = "normalize_embeddings pooled"
  have out: "pool_and_normalize hidden m = Inr ?out"
    using p(1) by (simp add: pool_and_normalize_def)
  have zero: "at2 pooled i k = Fin 0" if "k < h" for k
  proof -
    have "\<forall>j<s. is_finite (at3 hidden i j k)"
      using assms(5) that by blast
    then show ?thesis
      using spec_mean_pool_padding [OF assms(1) _ assms(4), of k] atp assms(3) that by simp
  qed
  have row_fin: "\<forall>c<h. is_finite (at2 pooled i c)"
    by (simp add: zero)
  have "at2 ?out i k = Fin 0" if "k < h" for k
    using normalize_entry [OF p(2)] clipped_norm_finite [OF p(2) row_fin] zero [OF that]
      max_eps_pos [of "sqrt (\<Sum>c\<leftarrow>[0..<h]. fin_value (at2 pooled i c) * fin_value (at2 pooled i c))"]
    by simp
  then have "map (\<lambda>k. at2 ?out i k) [0..<h] = map (\<lambda>k. Fin 0) [0..<h]"
    by (intro map_upt_cong)
  then have r: "row ?out i = replicate h (Fin 0)"
    using normalize_entry [OF p(2)] by (simp add: row_def map_replicate_const)
  have "fsqrt (fsum (map (\<lambda>x. fmul x x) (row ?out i))) = Fin 0"
    by (simp add: r fsum_replicate_zero)
  then show ?thesis
    using out r by blast
qed

theorem all_padding_row_is_zero_witness:
  "shape3 (array3 [[[Fin 5]]]) = (1, 1, 1) \<and> shape2 (array2 [[0 :: int]]) = (1, 1) \<and>
   at2 (array2 [[0 :: int]]) 0 0 = 0 \<and> is_finite (at3 (array3 [[[Fin 5]]]) 0 0 0) \<and>
   (\<exists>out. pool_and_normalize (array3 [[[Fin 5]]]) (array2 [[0]]) = Inr out \<and>
      row out 0 = [Fin 0] \<and>
      fsqrt (fsum (map (\<lambda>x. fmul x x) (row out 0))) = Fin 0)"
proof -
  have sh: "shape3 (array3 [[[Fin 5]]]) = (1, 1, 1)" "shape2 (array2 [[0 :: int]]) = (1, 1)"
    by (simp_all add: array3_def array2_def width_def)
  have pad: "\<forall>j<1. at2 (array2 [[0 :: int]]) 0 j = 0"
    by (simp add: array2_def width_def)
  have fin: "\<forall>j<1. \<forall>k<1. is_finite (at3 (array3 [[[Fin 5]]]) 0 j k)"
    by (simp add: array3_def width_def)
  show ?thesis
    using all_padding_row_is_zero [OF sh _ pad fin] sh pad fin by simp
qed

theorem all_padding_row_inf_counterexample:
  "map_sum id tolist2 (pool_and_normalize (array3 [[[PInf]]]) (array2 [[0]])) = Inr [[NaN]]"
  by (simp add: pooling_defs numpy_defs array3_def array2_def width_def tolist2_def pick_def fsum_def)

section \<open>The pipeline and the handlers: the claims\<close>

lemma get_embeddings_calls:
  "\<exists>rest. fst (get_embeddings env sentences prefix) =
      Tokenizer_call (if USE_E5_PREFIX (model_name env)
                      then map (\<lambda>s. prefix @ '': '' @ s) sentences else sentences) # rest
    \<and> (rest = [] \<or> rest = [Model_call])"
  by (simp add: get_embeddings_def Let_def split: sum.splits)

text \<open>
  Claim C2, as amended. An empty \<open>texts\<close> list is not rejected by validation: the handler
  passes it to the pipeline, where the tokenizer is applied to the empty list. When the
  tokenizer, the model or pooling raises, the response is 500 with that error; when they
  return, it is 200 with the embeddings and count 0. It is never 400.
\<close>

theorem embed_empty_texts_enters_pipeline:
  "(tokenizer env [] = Inl e \<longrightarrow>
      embed_route env \<lparr>req_text = None, req_texts = Some [], req_prefix = p\<rparr> =
        ([Tokenizer_call []], (500, Error_str e))) \<and>
   (tokenizer env [] = Inr enc \<and>
    model env (input_ids enc) (attention_mask enc) = Inl e \<longrightarrow>
      embed_route env \<lparr>req_text = None, req_texts = Some [], req_prefix = p\<rparr> =
        ([Tokenizer_call [], Model_call], (500, Error_str e))) \<and>
   (tokenizer env [] = Inr enc \<and>
    model env (input_ids enc) (attention_mask enc) = Inr hidden \<and>
    pool_and_normalize hidden (attention_mask enc) = Inl e \<longrightarrow>
      embed_route env \<lparr>req_text = None, req_texts = Some [], req_prefix = p\<rparr> =
        ([Tokenizer_call [], Model_call], (500, Error_str e))) \<and>
   (tokenizer env [] = Inr enc \<and>
    model env (input_ids enc) (attention_mask enc) = Inr hidden \<and>
    pool_and_normalize hidden (attention_mask enc) = Inr embeddings \<longrightarrow>
      embed_route env \<lparr>req_text = None, req_texts = Some [], req_prefix = p\<rparr> =
        ([Tokenizer_call [], Model_call],
         (200, Embed_result (tolist2 embeddings) (snd (shape2 embeddings)) 0))) \<and>
   fst (snd (embed_route env \<lparr>req_text = None, req_texts = Some [], req_prefix = p\<rparr>)) \<noteq> 400"
proof -
  let ?data = "\<lparr>req_text = None, req_texts = Some [], req_prefix = p\<rparr>"
  let ?pfx = "case p of Some q \<Rightarrow> q | None \<Rightarrow> ''passage''"
  have g: "get_embeddings env [] ?pfx =
      (case tokenizer env [] of
         Inl e \<Rightarrow> ([Tokenizer_call []], Inl e)
       | Inr enc \<Rightarrow>
           ([Tokenizer_call [], Model_call],
            case model env (input_ids enc) (attention_mask enc) of
              Inl e \<Rightarrow> Inl e
            | Inr hidden \<Rightarrow> pool_and_normalize hidden (attention_mask enc)))"
    by (cases "tokenizer env []")
      (simp_all add: get_embeddings_def split: sum.splits)
  have r: "embed_route env ?data =
      (case get_embeddings env [] ?pfx of
         (calls, Inl e) \<Rightarrow> (calls, (500, Error_str e))
       | (calls, Inr embeddings) \<Rightarrow>
           (calls, (200, Embed_result (tolist2 embeddings) (snd (shape2 embeddings)) 0)))"
    by (simp add: embed_route_def)
  have a: "tokenizer env [] = Inl e \<longrightarrow>
      embed_route env ?data = ([Tokenizer_call []], (500, Error_str e))"
    by (simp add: r g)
  have b: "tokenizer env [] = Inr enc \<and>
      model env (input_ids enc) (attention_mask enc) = Inl e \<longrightarrow>
      embed_route env ?data = ([Tokenizer_call [], Model_call], (500, Error_str e))"
    by (simp add: r g)
  have c: "tokenizer env [] = Inr enc \<and>
      model env (input_ids enc) (attention_mask enc) = Inr hidden \<and>
      pool_and_normalize hidden (attention_mask enc) = Inl e \<longrightarrow>
      embed_route env ?data = ([Tokenizer_call [], Model_call], (500, Error_str e))"
    by (simp add: r g)
  have d: "tokenizer env [] = Inr enc \<and>
      model env (input_ids enc) (attention_mask enc) = Inr hidden \<and>
      pool_and_normalize hidden (attention_mask enc) = Inr embeddings \<longrightarrow>
      embed_route env ?data =
        ([Tokenizer_call [], Model_call],
         (200, Embed_result (tolist2 embeddings) (snd (shape2 embeddings)) 0))"
    by (simp add: r g)
  have n: "fst (snd (embed_route env ?data)) \<noteq> 400"
    unfolding r
    by (cases "get_embeddings env [] ?pfx"; cases "snd (get_embeddings env [] ?pfx)") auto
  show ?thesis
    by (intro conjI a b c d n)
qed

theorem embed_empty_texts_enters_pipeline_witness:
  "embed_route (toy_env ''all-MiniLM-L6-v2'')
     \<lparr>req_text = None, req_texts = Some [], req_prefix = Some ''query''\<rparr> =
     ([Tokenizer_call []], (500, Error_str (Raised ''list index out of range''))) \<and>
   embed_route
     \<lparr>model_name = ''intfloat/e5-small-v2'',
      tokenizer = (\<lambda>batch. Inr \<lparr>input_ids = \<lparr>shape2 = (0, 0), at2 = (\<lambda>i j. 0)\<rparr>,
                                  attention_mask = \<lparr>shape2 = (0, 0), at2 = (\<lambda>i j. 0)\<rparr>\<rparr>),
      model = (\<lambda>ids msk. Inl (Raised ''empty input''))\<rparr>
     \<lparr>req_text = None, req_texts = Some [], req_prefix = None\<rparr> =
     ([Tokenizer_call [], Model_call], (500, Error_str (Raised ''empty input''))) \<and>
   embed_route
     \<lparr>model_name = ''intfloat/e5-small-v2'',
      tokenizer = (\<lambda>batch. Inr \<lparr>input_ids = \<lparr>shape2 = (0, 0), at2 = (\<lambda>i j. 0)\<rparr>,
                                  attention_mask = \<lparr>shape2 = (2, 3), at2 = (\<lambda>i j. 0)\<rparr>\<rparr>),
      model = (\<lambda>ids msk. Inr \<lparr>shape3 = (0, 0, 2), at3 = (\<lambda>i j k. Fin 0)\<rparr>)\<rparr>
     \<lparr>req_text = None, req_texts = Some [], req_prefix = None\<rparr> =
     ([Tokenizer_call [], Model_call], (500, Error_str (BroadcastError (2, 3, 1) (0, 0, 2)))) \<and>
   embed_route
     \<lparr>model_name = ''intfloat/e5-small-v2'',
      tokenizer = (\<lambda>batch. Inr \<lparr>input_ids = \<lparr>shape2 = (0, 0), at2 = (\<lambda>i j. 0)\<rparr>,
                                  attention_mask = \<lparr>shape2 = (0, 0), at2 = (\<lambda>i j. 0)\<rparr>\<rparr>),
      model = (\<lambda>ids msk. Inr \<lparr>shape3 = (0, 0, 2), at3 = (\<lambda>i j k. Fin 0)\<rparr>)\<rparr>
     \<lparr>req_text = None, req_texts = Some [], req_prefix = None\<rparr> =
     ([Tokenizer_call [], Model_call], (200, Embed_result [] 2 0))"
proof -
  let ?none = "\<lparr>req_text = None, req_texts = Some [], req_prefix = None\<rparr>"
  let ?empty = "\<lparr>shape2 = (0, 0), at2 = (\<lambda>i j. 0)\<rparr> :: int ndarray2"
  let ?enc = "\<lparr>input_ids = ?empty, attention_mask = ?empty\<rparr>"
  let ?hid = "\<lparr>shape3 = (0, 0, 2), at3 = (\<lambda>i j k. Fin 0)\<rparr> :: f32 ndarray3"
  \<comment> \<open>the tokenizer raises\<close>
  let ?mini = "toy_env ''all-MiniLM-L6-v2''"
  have "tokenizer ?mini [] = Inl (Raised ''list index out of range'')"
    by (simp add: toy_env_def toy_tokenizer_def)
  then have a: "embed_route ?mini
        \<lparr>req_text = None, req_texts = Some [], req_prefix = Some ''query''\<rparr> =
      ([Tokenizer_call []], (500, Error_str (Raised ''list index out of range'')))"
    by (rule embed_empty_texts_enters_pipeline
        [where env = ?mini and e = "Raised ''list index out of range''",
          THEN conjunct1, THEN mp])
  \<comment> \<open>the model raises\<close>
  let ?envb = "\<lparr>model_name = ''intfloat/e5-small-v2'', tokenizer = (\<lambda>batch. Inr ?enc),
                 model = (\<lambda>ids msk. Inl (Raised ''empty input''))\<rparr>"
  have "tokenizer ?envb [] = Inr ?enc \<and>
        model ?envb (input_ids ?enc) (attention_mask ?enc) = Inl (Raised ''empty input'')"
    by simp
  then have b: "embed_route ?envb ?none =
      ([Tokenizer_call [], Model_call], (500, Error_str (Raised ''empty input'')))"
    by (rule embed_empty_texts_enters_pipeline
        [where env = ?envb and e = "Raised ''empty input''" and enc = ?enc,
          THEN conjunct2, THEN conjunct1, THEN mp])
  \<comment> \<open>pooling raises\<close>
  let ?enc2 = "\<lparr>input_ids = ?empty,
                 attention_mask = \<lparr>shape2 = (2, 3), at2 = (\<lambda>i j. 0)\<rparr> :: int ndarray2\<rparr>"
  let ?envc = "\<lparr>model_name = ''intfloat/e5-small-v2'', tokenizer = (\<lambda>batch. Inr ?enc2),
                 model = (\<lambda>ids msk. Inr ?hid)\<rparr>"
  have pc: "pool_and_normalize ?hid (attention_mask ?enc2) =
      Inl (BroadcastError (2, 3, 1) (0, 0, 2))"
    by (simp add: pooling_defs numpy_defs)
  have "tokenizer ?envc [] = Inr ?enc2 \<and>
        model ?envc (input_ids ?enc2) (attention_mask ?enc2) = Inr ?hid \<and>
        pool_and_normalize ?hid (attention_mask ?enc2) = Inl (BroadcastError (2, 3, 1) (0, 0, 2))"
    using pc by simp
  then have c: "embed_route ?envc ?none =
      ([Tokenizer_call [], Model_call], (500, Error_str (BroadcastError (2, 3, 1) (0, 0, 2))))"
    by (rule embed_empty_texts_enters_pipeline
        [where env = ?envc and enc = ?enc2 and e = "BroadcastError (2, 3, 1) (0, 0, 2)"
            and hidden = ?hid,
          THEN conjunct2, THEN conjunct2, THEN conjunct1, THEN mp])
  \<comment> \<open>the pipeline returns\<close>
  let ?envd = "\<lparr>model_name = ''intfloat/e5-small-v2'', tokenizer = (\<lambda>batch. Inr ?enc),
                 model = (\<lambda>ids msk. Inr ?hid)\<rparr>"
  obtain emb where pd: "pool_and_normalize ?hid (attention_mask ?enc) = Inr emb"
    and l: "tolist2 emb = []" "snd (shape2 emb) = 2"
    by (simp add: pooling_defs numpy_defs tolist2_def)
  have "tokenizer ?envd [] = Inr ?enc \<and>
        model ?envd (input_ids ?enc) (attention_mask ?enc) = Inr ?hid \<and>
        pool_and_normalize ?hid (attention_mask ?enc) = Inr emb"
    using pd by simp
  then have "embed_route ?envd ?none =
      ([Tokenizer_call [], Model_call],
       (200, Embed_result (tolist2 emb) (snd (shape2 emb)) 0))"
    by (rule embed_empty_texts_enters_pipeline
        [where env = ?envd and enc = ?enc and hidden = ?hid and embeddings = emb,
          THEN conjunct2, THEN conjunct2, THEN conjunct2, THEN conjunct1, THEN mp])
  then have d: "embed_route ?envd ?none =
      ([Tokenizer_call [], Model_call], (200, Embed_result [] 2 0))"
    by (simp add: l)
  show ?thesis
    by (intro conjI a b c d)
qed

theorem embed_empty_texts_counterexample:
  "embed_route (toy_env ''intfloat/e5-small-v2'')
     \<lparr>req_text = None, req_texts = Some [], req_prefix = None\<rparr> =
   ([Tokenizer_call []], (500, Error_str (Raised ''list index out of range'')))"
  by (simp add: embed_route_def get_embeddings_def toy_env_def toy_tokenizer_def)

text \<open>
  Claim C7. \<^verbatim>\<open>POST /embed\<close>: a body with neither \<open>text\<close> nor \<open>texts\<close> gets 400 and the
  error message, without a call into the pipeline. Otherwise the texts go through the
  pipeline: an exception of the tokenizer, of the model or of pooling is caught and
  returned as 500 with its string, and a result is returned as 200 with the embeddings,
  their dimension and the number of texts. The handler always returns one of the three
  statuses.
\<close>

theorem embed_route_statuses:
  "(req_text data = None \<and> req_texts data = None \<longrightarrow>
      embed_route env data =
        ([], (400, Error_message ''Missing 'text' or 'texts' in request body''))) \<and>
   ((case req_text data of Some t \<Rightarrow> Some [t] | None \<Rightarrow> req_texts data) = Some texts \<and>
    prefixed = (if USE_E5_PREFIX (model_name env)
                then map (\<lambda>s. (case req_prefix data of Some p \<Rightarrow> p | None \<Rightarrow> ''passage'')
                                @ '': '' @ s) texts
                else texts) \<longrightarrow>
      (tokenizer env prefixed = Inl e \<longrightarrow>
         snd (embed_route env data) = (500, Error_str e)) \<and>
      (tokenizer env prefixed = Inr enc \<and>
       model env (input_ids enc) (attention_mask enc) = Inl e \<longrightarrow>
         snd (embed_route env data) = (500, Error_str e)) \<and>
      (tokenizer env prefixed = Inr enc \<and>
       model env (input_ids enc) (attention_mask enc) = Inr hidden \<and>
       pool_and_normalize hidden (attention_mask enc) = Inl e \<longrightarrow>
         snd (embed_route env data) = (500, Error_str e)) \<and>
      (tokenizer env prefixed = Inr enc \<and>
       model env (input_ids enc) (attention_mask enc) = Inr hidden \<and>
       pool_and_normalize hidden (attention_mask enc) = Inr embeddings \<longrightarrow>
         snd (embed_route env data) =
           (200, Embed_result (tolist2 embeddings) (snd (shape2 embeddings)) (length texts)))) \<and>
   fst (snd (embed_route env data)) \<in> {200, 400, 500}"
  by (auto simp: embed_route_def get_embeddings_def Let_def split: sum.splits option.splits)

theorem embed_route_statuses_witness:
  "embed_route (toy_env ''intfloat/e5-small-v2'')
     \<lparr>req_text = None, req_texts = None, req_prefix = None\<rparr> =
     ([], (400, Error_message ''Missing 'text' or 'texts' in request body'')) \<and>
   snd (embed_route (toy_env ''intfloat/e5-small-v2'')
     \<lparr>req_text = None, req_texts = Some [], req_prefix = None\<rparr>) =
     (500, Error_str (Raised ''list index out of range'')) \<and>
   snd (embed_route
     \<lparr>model_name = ''intfloat/e5-small-v2'', tokenizer = toy_tokenizer,
      model = (\<lambda>ids msk. Inl (Raised ''inference failed''))\<rparr>
     \<lparr>req_text = Some ''x'', req_texts = None, req_prefix = None\<rparr>) =
     (500, Error_str (Raised ''inference failed'')) \<and>
   snd (embed_route
     \<lparr>model_name = ''intfloat/e5-small-v2'', tokenizer = toy_tokenizer,
      model = (\<lambda>ids msk. Inr \<lparr>shape3 = (3, 1, 2), at3 = (\<lambda>i j k. Fin 1)\<rparr>)\<rparr>
     \<lparr>req_text = None, req_texts = Some [''x'', ''yyy''], req_prefix = None\<rparr>) =
     (500, Error_str (BroadcastError (2, 1, 1) (3, 1, 2))) \<and>
   snd (embed_route (toy_env ''intfloat/e5-small-v2'')
     \<lparr>req_text = None, req_texts = Some [''x'', ''yyy''], req_prefix = Some ''query''\<rparr>) =
     (200, Embed_result [[Fin 1, Fin 0], [Fin 0, Fin 1]] 2 2)"
proof -
  let ?e5 = "''intfloat/e5-small-v2''"
  let ?toy = "toy_env ?e5"
  have on: "USE_E5_PREFIX ?e5"
    by (simp add: USE_E5_PREFIX_def lower_char_def)
  let ?enc1 = "\<lparr>input_ids = array2 [[10]], attention_mask = array2 [[1]]\<rparr>"
  have tok1: "toy_tokenizer [''passage: x''] = Inr ?enc1"
    by (simp add: toy_tokenizer_def)
  let ?enc2 = "\<lparr>input_ids = array2 [[8], [10]], attention_mask = array2 [[1], [1]]\<rparr>"
  have tok2: "toy_tokenizer [''query: x'', ''query: yyy''] = Inr ?enc2"
    by (simp add: toy_tokenizer_def)
  \<comment> \<open>neither field\<close>
  let ?none = "\<lparr>req_text = None, req_texts = None, req_prefix = None\<rparr>"
  have "req_text ?none = None \<and> req_texts ?none = None"
    by simp
  then have a: "embed_route ?toy ?none =
      ([], (400, Error_message ''Missing 'text' or 'texts' in request body''))"
    using embed_route_statuses [of ?none ?toy] by blast
  \<comment> \<open>the tokenizer raises\<close>
  let ?empty = "\<lparr>req_text = None, req_texts = Some [], req_prefix = None\<rparr>"
  have "(case req_text ?empty of Some t \<Rightarrow> Some [t] | None \<Rightarrow> req_texts ?empty) = Some [] \<and>
        [] = (if USE_E5_PREFIX (model_name ?toy)
              then map (\<lambda>s. (case req_prefix ?empty of Some p \<Rightarrow> p | None \<Rightarrow> ''passage'')
                              @ '': '' @ s) []
              else [])"
    by simp
  moreover have "tokenizer ?toy [] = Inl (Raised ''list index out of range'')"
    by (simp add: toy_env_def toy_tokenizer_def)
  ultimately have b: "snd (embed_route ?toy ?empty) =
      (500, Error_str (Raised ''list index out of range''))"
    using embed_route_statuses
      [of ?empty ?toy "[]" "[]" "Raised ''list index out of range''"]
    by blast
  \<comment> \<open>the model raises\<close>
  let ?one = "\<lparr>req_text = Some ''x'', req_texts = None, req_prefix = None\<rparr>"
  let ?envc = "\<lparr>model_name = ?e5, tokenizer = toy_tokenizer,
                 model = (\<lambda>ids msk. Inl (Raised ''inference failed''))\<rparr>"
  have selc: "(case req_text ?one of Some t \<Rightarrow> Some [t] | None \<Rightarrow> req_texts ?one) = Some [''x''] \<and>
        [''passage: x''] = (if USE_E5_PREFIX (model_name ?envc)
              then map (\<lambda>s. (case req_prefix ?one of Some p \<Rightarrow> p | None \<Rightarrow> ''passage'')
                              @ '': '' @ s) [''x'']
              else [''x''])"
    using on by simp
  have "tokenizer ?envc [''passage: x''] = Inr ?enc1 \<and>
        model ?envc (input_ids ?enc1) (attention_mask ?enc1) = Inl (Raised ''inference failed'')"
    using tok1 by simp
  then have c: "snd (embed_route ?envc ?one) = (500, Error_str (Raised ''inference failed''))"
    using selc embed_route_statuses
      [of ?one ?envc "[''x'']" "[''passage: x'']" "Raised ''inference failed''" ?enc1]
    by blast
  \<comment> \<open>pooling raises: the hidden states do not have the shape of the mask\<close>
  let ?pair = "\<lparr>req_text = None, req_texts = Some [''x'', ''yyy''], req_prefix = None\<rparr>"
  let ?enc3 = "\<lparr>input_ids = array2 [[10], [12]], attention_mask = array2 [[1], [1]]\<rparr>"
  have tok3: "toy_tokenizer [''passage: x'', ''passage: yyy''] = Inr ?enc3"
    by (simp add: toy_tokenizer_def)
  let ?bad = "\<lparr>shape3 = (3, 1, 2), at3 = (\<lambda>i j k. Fin 1)\<rparr> :: f32 ndarray3"
  let ?envd = "\<lparr>model_name = ?e5, tokenizer = toy_tokenizer, model = (\<lambda>ids msk. Inr ?bad)\<rparr>"
  have seld: "(case req_text ?pair of Some t \<Rightarrow> Some [t] | None \<Rightarrow> req_texts ?pair) =
          Some [''x'', ''yyy''] \<and>
        [''passage: x'', ''passage: yyy''] = (if USE_E5_PREFIX (model_name ?envd)
              then map (\<lambda>s. (case req_prefix ?pair of Some p \<Rightarrow> p | None \<Rightarrow> ''passage'')
                              @ '': '' @ s) [''x'', ''yyy'']
              else [''x'', ''yyy''])"
    using on by simp
  have pn: "pool_and_normalize ?bad (attention_mask ?enc3) =
              Inl (BroadcastError (2, 1, 1) (3, 1, 2))"
    by (simp add: pooling_defs numpy_defs array2_def width_def)
  have "tokenizer ?envd [''passage: x'', ''passage: yyy''] = Inr ?enc3 \<and>
        model ?envd (input_ids ?enc3) (attention_mask ?enc3) = Inr ?bad"
    using tok3 by simp
  then have d: "snd (embed_route ?envd ?pair) =
      (500, Error_str (BroadcastError (2, 1, 1) (3, 1, 2)))"
    using seld pn embed_route_statuses
      [of ?pair ?envd "[''x'', ''yyy'']" "[''passage: x'', ''passage: yyy'']"
          "BroadcastError (2, 1, 1) (3, 1, 2)" ?enc3 ?bad]
    by blast
  \<comment> \<open>success\<close>
  let ?two = "\<lparr>req_text = None, req_texts = Some [''x'', ''yyy''], req_prefix = Some ''query''\<rparr>"
  have sele: "(case req_text ?two of Some t \<Rightarrow> Some [t] | None \<Rightarrow> req_texts ?two) =
          Some [''x'', ''yyy''] \<and>
        [''query: x'', ''query: yyy''] = (if USE_E5_PREFIX (model_name ?toy)
              then map (\<lambda>s. (case req_prefix ?two of Some p \<Rightarrow> p | None \<Rightarrow> ''passage'')
                              @ '': '' @ s) [''x'', ''yyy'']
              else [''x'', ''yyy''])"
    using on by (simp add: toy_env_def)
  obtain hidden where hid: "toy_model (array2 [[8], [10]]) (array2 [[1], [1]]) = Inr hidden"
    by (simp add: toy_model_def)
  obtain emb where emb: "pool_and_normalize hidden (array2 [[1], [1]]) = Inr emb"
    and l: "tolist2 emb = [[Fin 1, Fin 0], [Fin 0, Fin 1]]" "snd (shape2 emb) = 2"
    using hid
    by (auto simp: toy_model_def pooling_defs numpy_defs array2_def width_def tolist2_def pick_def
        fsum_def eps_def upt_2)
  have "tokenizer ?toy [''query: x'', ''query: yyy''] = Inr ?enc2 \<and>
        model ?toy (input_ids ?enc2) (attention_mask ?enc2) = Inr hidden \<and>
        pool_and_normalize hidden (attention_mask ?enc2) = Inr emb"
    using tok2 hid emb by (simp add: toy_env_def)
  then have "snd (embed_route ?toy ?two) =
      (200, Embed_result (tolist2 emb) (snd (shape2 emb)) (length [''x'', ''yyy'']))"
    using sele embed_route_statuses
      [of ?two ?toy "[''x'', ''yyy'']" "[''query: x'', ''query: yyy'']" _ ?enc2 hidden emb]
    by blast
  then have e: "snd (embed_route ?toy ?two) =
      (200, Embed_result [[Fin 1, Fin 0], [Fin 0, Fin 1]] 2 2)"
    using l by simp
  show ?thesis
    using a b c d e by blast
qed

text \<open>
  Claim C9. When the body has both \<open>text\<close> and \<open>texts\<close>, the handler answers as if \<open>texts\<close>
  were absent: the tokenizer is called with the single \<open>text\<close> (prefixed in prefix mode),
  and a successful response reports count 1.
\<close>

theorem text_takes_precedence_over_texts:
  "embed_route env \<lparr>req_text = Some t, req_texts = Some ts, req_prefix = p\<rparr> =
     embed_route env \<lparr>req_text = Some t, req_texts = None, req_prefix = p\<rparr> \<and>
   (\<exists>rest. fst (embed_route env \<lparr>req_text = Some t, req_texts = Some ts, req_prefix = p\<rparr>) =
      Tokenizer_call
        [if USE_E5_PREFIX (model_name env)
         then (case p of Some q \<Rightarrow> q | None \<Rightarrow> ''passage'') @ '': '' @ t else t] # rest) \<and>
   (\<forall>vs d n. snd (embed_route env \<lparr>req_text = Some t, req_texts = Some ts, req_prefix = p\<rparr>) =
        (200, Embed_result vs d n) \<longrightarrow> n = 1)"
proof -
  let ?both = "\<lparr>req_text = Some t, req_texts = Some ts, req_prefix = p\<rparr>"
  let ?pfx = "case p of Some q \<Rightarrow> q | None \<Rightarrow> ''passage''"
  let ?g = "get_embeddings env [t] ?pfx"
  have same: "embed_route env ?both =
      embed_route env \<lparr>req_text = Some t, req_texts = None, req_prefix = p\<rparr>"
    by (simp add: embed_route_def)
  have r: "embed_route env ?both =
      (case ?g of
         (calls, Inl e) \<Rightarrow> (calls, (500, Error_str e))
       | (calls, Inr embeddings) \<Rightarrow>
           (calls, (200, Embed_result (tolist2 embeddings) (snd (shape2 embeddings)) (Suc 0))))"
    by (simp add: embed_route_def)
  have calls: "fst (embed_route env ?both) = fst ?g"
    unfolding r by (cases ?g; cases "snd ?g") auto
  have "\<exists>rest. fst ?g =
      Tokenizer_call [if USE_E5_PREFIX (model_name env) then ?pfx @ '': '' @ t else t] # rest"
    using get_embeddings_calls [of env "[t]" ?pfx] by auto
  then have first: "\<exists>rest. fst (embed_route env ?both) =
      Tokenizer_call [if USE_E5_PREFIX (model_name env) then ?pfx @ '': '' @ t else t] # rest"
    by (simp only: calls)
  have count: "\<forall>vs d n. snd (embed_route env ?both) = (200, Embed_result vs d n) \<longrightarrow> n = 1"
    unfolding r by (cases ?g; cases "snd ?g") auto
  show ?thesis
    using same first count by blast
qed

lemmas toy_eval = get_embeddings_def toy_env_def USE_E5_PREFIX_def lower_char_def
  toy_tokenizer_def toy_model_def pool_and_normalize_def mean_pooling_def
  input_mask_expanded_def sum_mask_def normalize_embeddings_def clipped_norms_def
  broadcast_to_def astype_float32_def expand_dims_def fits_def sum_axis1_def multiply_def
  clip_min_def true_divide_def norm_axis1_def pick_def array2_def width_def tolist2_def row_def
  fsum_def eps_def upt_2 Let_def

lemma toy_e5_query_x:
  "\<exists>emb. get_embeddings (toy_env ''intfloat/e5-small-v2'') [''x''] ''query'' =
            ([Tokenizer_call [''query: x''], Model_call], Inr emb) \<and>
         shape2 emb = (1, 2) \<and> row emb 0 = [Fin 1, Fin 0]"
  by (simp add: toy_eval)

lemma toy_e5_passage_x:
  "\<exists>emb. get_embeddings (toy_env ''intfloat/e5-small-v2'') [''x''] ''passage'' =
            ([Tokenizer_call [''passage: x''], Model_call], Inr emb) \<and>
         shape2 emb = (1, 2) \<and> row emb 0 = [Fin 0, Fin 1]"
  by (simp add: toy_eval)

lemma toy_e5_passage_yyy:
  "\<exists>emb. get_embeddings (toy_env ''intfloat/e5-small-v2'') [''yyy''] ''passage'' =
            ([Tokenizer_call [''passage: yyy''], Model_call], Inr emb) \<and>
         shape2 emb = (1, 2) \<and> row emb 0 = [Fin 0, Fin 1]"
  by (simp add: toy_eval)

lemma e5_small_v2: "USE_E5_PREFIX (model_name (toy_env ''intfloat/e5-small-v2''))"
  by (simp add: toy_env_def USE_E5_PREFIX_def lower_char_def)

lemma minilm: "\<not> USE_E5_PREFIX (model_name (toy_env ''all-MiniLM-L6-v2''))"
  by (simp add: toy_env_def USE_E5_PREFIX_def lower_char_def)

lemma toy_embed_text_x: "embed_route (toy_env ''intfloat/e5-small-v2'')
          \<lparr>req_text = Some ''x'', req_texts = None, req_prefix = None\<rparr> =
        ([Tokenizer_call [''passage: x''], Model_call], (200, Embed_result [[Fin 0, Fin 1]] 2 1))"
proof -
  obtain emb where e: "get_embeddings (toy_env ''intfloat/e5-small-v2'') [''x''] ''passage'' =
            ([Tokenizer_call [''passage: x''], Model_call], Inr emb)"
         "shape2 emb = (1, 2)" "row emb 0 = [Fin 0, Fin 1]"
    using toy_e5_passage_x by blast
  have "tolist2 emb = [row emb 0]"
    by (simp add: tolist2_def row_def e(2))
  then show ?thesis
    by (simp add: embed_route_def e)
qed

theorem text_takes_precedence_over_texts_witness:
  "embed_route (toy_env ''intfloat/e5-small-v2'')
     \<lparr>req_text = Some ''x'', req_texts = Some [''a'', ''b'', ''c''], req_prefix = None\<rparr> =
   ([Tokenizer_call [''passage: x''], Model_call], (200, Embed_result [[Fin 0, Fin 1]] 2 1))"
proof -
  have "embed_route (toy_env ''intfloat/e5-small-v2'')
     \<lparr>req_text = Some ''x'', req_texts = Some [''a'', ''b'', ''c''], req_prefix = None\<rparr> =
     embed_route (toy_env ''intfloat/e5-small-v2'')
     \<lparr>req_text = Some ''x'', req_texts = None, req_prefix = None\<rparr>"
    using text_takes_precedence_over_texts
      [of "toy_env ''intfloat/e5-small-v2''" "''x''" "[''a'', ''b'', ''c'']" None]
    by (rule conjunct1)
  also note toy_embed_text_x
  finally show ?thesis .
qed

lemma get_embeddings_tokenizer_raises:
  assumes "prefixed = (if USE_E5_PREFIX (model_name env)
                       then map (\<lambda>s. prefix @ '': '' @ s) sentences else sentences)"
    and "tokenizer env prefixed = Inl e"
  shows "get_embeddings env sentences prefix = ([Tokenizer_call prefixed], Inl e)"
  using assms by (simp add: get_embeddings_def)

lemma get_embeddings_tokenizer_returns:
  assumes "prefixed = (if USE_E5_PREFIX (model_name env)
                       then map (\<lambda>s. prefix @ '': '' @ s) sentences else sentences)"
    and "tokenizer env prefixed = Inr enc"
  shows "get_embeddings env sentences prefix =
           ([Tokenizer_call prefixed, Model_call],
            case model env (input_ids enc) (attention_mask enc) of
              Inl e \<Rightarrow> Inl e
            | Inr hidden \<Rightarrow> pool_and_normalize hidden (attention_mask enc))"
  using assms
  by (cases "model env (input_ids enc) (attention_mask enc)") (simp_all add: get_embeddings_def)

text \<open>
  Claim C4. In prefix mode the tokenizer is applied to the texts with the prefix, a colon
  and a space put before each of them, and otherwise to the texts as they are: what the
  pipeline returns is what follows from the tokenizer's answer on that list, its exception
  or the pooled output of the model on its encoding, and the list is the one the call log
  records.
\<close>

theorem prefix_mode_tokenizer_input:
  "(USE_E5_PREFIX (model_name env) \<longrightarrow>
      (tokenizer env (map (\<lambda>s. prefix @ '': '' @ s) sentences) = Inl e \<longrightarrow>
         get_embeddings env sentences prefix =
           ([Tokenizer_call (map (\<lambda>s. prefix @ '': '' @ s) sentences)], Inl e)) \<and>
      (tokenizer env (map (\<lambda>s. prefix @ '': '' @ s) sentences) = Inr enc \<longrightarrow>
         get_embeddings env sentences prefix =
           ([Tokenizer_call (map (\<lambda>s. prefix @ '': '' @ s) sentences), Model_call],
            case model env (input_ids enc) (attention_mask enc) of
              Inl e \<Rightarrow> Inl e
            | Inr hidden \<Rightarrow> pool_and_normalize hidden (attention_mask enc)))) \<and>
   (\<not> USE_E5_PREFIX (model_name env) \<longrightarrow>
      (tokenizer env sentences = Inl e \<longrightarrow>
         get_embeddings env sentences prefix = ([Tokenizer_call sentences], Inl e)) \<and>
      (tokenizer env sentences = Inr enc \<longrightarrow>
         get_embeddings env sentences prefix =
           ([Tokenizer_call sentences, Model_call],
            case model env (input_ids enc) (attention_mask enc) of
              Inl e \<Rightarrow> Inl e
            | Inr hidden \<Rightarrow> pool_and_normalize hidden (attention_mask enc))))"
proof (intro conjI impI)
  assume on: "USE_E5_PREFIX (model_name env)"
  {
    assume "tokenizer env (map (\<lambda>s. prefix @ '': '' @ s) sentences) = Inl e"
    then show "get_embeddings env sentences prefix =
        ([Tokenizer_call (map (\<lambda>s. prefix @ '': '' @ s) sentences)], Inl e)"
      by (intro get_embeddings_tokenizer_raises) (simp_all add: on)
  next
    assume "tokenizer env (map (\<lambda>s. prefix @ '': '' @ s) sentences) = Inr enc"
    then show "get_embeddings env sentences prefix =
        ([Tokenizer_call (map (\<lambda>s. prefix @ '': '' @ s) sentences), Model_call],
         case model env (input_ids enc) (attention_mask enc) of
           Inl e \<Rightarrow> Inl e
         | Inr hidden \<Rightarrow> pool_and_normalize hidden (attention_mask enc))"
      by (intro get_embeddings_tokenizer_returns) (simp_all add: on)
  }
next
  assume off: "\<not> USE_E5_PREFIX (model_name env)"
  {
    assume "tokenizer env sentences = Inl e"
    then show "get_embeddings env sentences prefix = ([Tokenizer_call sentences], Inl e)"
      by (intro get_embeddings_tokenizer_raises) (simp_all add: off)
  next
    assume "tokenizer env sentences = Inr enc"
    then show "get_embeddings env sentences prefix =
        ([Tokenizer_call sentences, Model_call],
         case model env (input_ids enc) (attention_mask enc) of
           Inl e \<Rightarrow> Inl e
         | Inr hidden \<Rightarrow> pool_and_normalize hidden (attention_mask enc))"
      by (intro get_embeddings_tokenizer_returns) (simp_all add: off)
  }
qed

theorem prefix_mode_tokenizer_input_witness:
  "USE_E5_PREFIX (model_name (toy_env ''intfloat/e5-small-v2'')) \<and>
   fst (get_embeddings (toy_env ''intfloat/e5-small-v2'') [''x'', ''yyy''] ''query'') =
     [Tokenizer_call [''query: x'', ''query: yyy''], Model_call] \<and>
   map_sum id tolist2
     (snd (get_embeddings (toy_env ''intfloat/e5-small-v2'') [''x'', ''yyy''] ''query'')) =
     Inr [[Fin 1, Fin 0], [Fin 0, Fin 1]] \<and>
   get_embeddings (toy_env ''intfloat/e5-small-v2'') [] ''query'' =
     ([Tokenizer_call []], Inl (Raised ''list index out of range'')) \<and>
   \<not> USE_E5_PREFIX (model_name (toy_env ''all-MiniLM-L6-v2'')) \<and>
   fst (get_embeddings (toy_env ''all-MiniLM-L6-v2'') [''x'', ''yyy''] ''query'') =
     [Tokenizer_call [''x'', ''yyy''], Model_call] \<and>
   map_sum id tolist2
     (snd (get_embeddings (toy_env ''all-MiniLM-L6-v2'') [''x'', ''yyy''] ''query'')) =
     Inr [[Fin 1, Fin 0], [Fin 1, Fin 0]] \<and>
   get_embeddings (toy_env ''all-MiniLM-L6-v2'') [] ''query'' =
     ([Tokenizer_call []], Inl (Raised ''list index out of range''))"
proof -
  let ?e5 = "toy_env ''intfloat/e5-small-v2''"
  let ?mini = "toy_env ''all-MiniLM-L6-v2''"
  note on = e5_small_v2
  note off = minilm
  \<comment> \<open>prefix mode, the tokenizer returns\<close>
  let ?enc = "\<lparr>input_ids = array2 [[8], [10]], attention_mask = array2 [[1], [1]]\<rparr>"
  have tok: "tokenizer ?e5 (map (\<lambda>s. ''query'' @ '': '' @ s) [''x'', ''yyy'']) = Inr ?enc"
    by (simp add: toy_env_def toy_tokenizer_def)
  obtain hidden where hid: "toy_model (array2 [[8], [10]]) (array2 [[1], [1]]) = Inr hidden"
    by (simp add: toy_model_def)
  obtain emb where emb: "pool_and_normalize hidden (array2 [[1], [1]]) = Inr emb"
    and l: "tolist2 emb = [[Fin 1, Fin 0], [Fin 0, Fin 1]]"
    using hid
    by (auto simp: toy_model_def pooling_defs numpy_defs array2_def width_def tolist2_def
        pick_def fsum_def eps_def upt_2)
  have "get_embeddings ?e5 [''x'', ''yyy''] ''query'' =
      ([Tokenizer_call (map (\<lambda>s. ''query'' @ '': '' @ s) [''x'', ''yyy'']), Model_call],
       case model ?e5 (input_ids ?enc) (attention_mask ?enc) of
         Inl e \<Rightarrow> Inl e
       | Inr hidden \<Rightarrow> pool_and_normalize hidden (attention_mask ?enc))"
    using prefix_mode_tokenizer_input
      [of ?e5 "''query''" "[''x'', ''yyy'']" _ ?enc, THEN conjunct1, THEN mp, OF on,
        THEN conjunct2, THEN mp, OF tok] .
  then have g1: "get_embeddings ?e5 [''x'', ''yyy''] ''query'' =
      ([Tokenizer_call [''query: x'', ''query: yyy''], Model_call], Inr emb)"
    using hid emb by (simp add: toy_env_def)
  \<comment> \<open>prefix mode, the tokenizer raises\<close>
  have tok0: "tokenizer ?e5 (map (\<lambda>s. ''query'' @ '': '' @ s) []) =
      Inl (Raised ''list index out of range'')"
    by (simp add: toy_env_def toy_tokenizer_def)
  have "get_embeddings ?e5 [] ''query'' =
      ([Tokenizer_call (map (\<lambda>s. ''query'' @ '': '' @ s) [])],
       Inl (Raised ''list index out of range''))"
    using prefix_mode_tokenizer_input
      [of ?e5 "''query''" "[]" "Raised ''list index out of range''", THEN conjunct1, THEN mp,
        OF on, THEN conjunct1, THEN mp, OF tok0] .
  then have g2: "get_embeddings ?e5 [] ''query'' =
      ([Tokenizer_call []], Inl (Raised ''list index out of range''))"
    by simp
  \<comment> \<open>no prefix mode, the tokenizer returns\<close>
  let ?enc' = "\<lparr>input_ids = array2 [[1], [3]], attention_mask = array2 [[1], [1]]\<rparr>"
  have tok': "tokenizer ?mini [''x'', ''yyy''] = Inr ?enc'"
    by (simp add: toy_env_def toy_tokenizer_def)
  obtain hidden' where hid': "toy_model (array2 [[1], [3]]) (array2 [[1], [1]]) = Inr hidden'"
    by (simp add: toy_model_def)
  obtain emb' where emb': "pool_and_normalize hidden' (array2 [[1], [1]]) = Inr emb'"
    and l': "tolist2 emb' = [[Fin 1, Fin 0], [Fin 1, Fin 0]]"
    using hid'
    by (auto simp: toy_model_def pooling_defs numpy_defs array2_def width_def tolist2_def
        pick_def fsum_def eps_def upt_2)
  have "get_embeddings ?mini [''x'', ''yyy''] ''query'' =
      ([Tokenizer_call [''x'', ''yyy''], Model_call],
       case model ?mini (input_ids ?enc') (attention_mask ?enc') of
         Inl e \<Rightarrow> Inl e
       | Inr hidden \<Rightarrow> pool_and_normalize hidden (attention_mask ?enc'))"
    using prefix_mode_tokenizer_input
      [of ?mini "''query''" "[''x'', ''yyy'']" _ ?enc', THEN conjunct2, THEN mp, OF off,
        THEN conjunct2, THEN mp, OF tok'] .
  then have g3: "get_embeddings ?mini [''x'', ''yyy''] ''query'' =
      ([Tokenizer_call [''x'', ''yyy''], Model_call], Inr emb')"
    using hid' emb' by (simp add: toy_env_def)
  \<comment> \<open>no prefix mode, the tokenizer raises\<close>
  have tok0': "tokenizer ?mini [] = Inl (Raised ''list index out of range'')"
    by (simp add: toy_env_def toy_tokenizer_def)
  have g4: "get_embeddings ?mini [] ''query'' =
      ([Tokenizer_call []], Inl (Raised ''list index out of range''))"
    using prefix_mode_tokenizer_input
      [of ?mini "''query''" "[]" "Raised ''list index out of range''", THEN conjunct2, THEN mp,
        OF off, THEN conjunct1, THEN mp, OF tok0'] .
  show ?thesis
    by (intro conjI on off) (simp_all add: g1 g2 g3 g4 l l')
qed

section \<open>Similarity: the claims\<close>

lemma getitem0_row: "0 < fst (shape2 a) \<Longrightarrow> getitem0 a = Inr (row a 0)"
  by (simp add: getitem0_def)

lemma length_row: "length (row a i) = snd (shape2 a)"
  by (simp add: row_def)

text \<open>
  Claim C3. \<^verbatim>\<open>similarity\<close> embeds \<open>[text1]\<close> with prefix \<open>query\<close> and \<open>[text2]\<close> with prefix
  \<open>passage\<close>, each in a pipeline run of its own on a one-element batch, and returns the dot
  product of the first rows of the two results.
\<close>

theorem similarity_is_dot_of_query_and_passage:
  assumes "text1 data = Some t1" and "text2 data = Some t2"
    and "get_embeddings env [t1] ''query'' = (c1, Inr emb1)"
    and "get_embeddings env [t2] ''passage'' = (c2, Inr emb2)"
    and "0 < fst (shape2 emb1)" and "0 < fst (shape2 emb2)"
    and "snd (shape2 emb1) = snd (shape2 emb2)"
  shows "similarity env data =
           (c1 @ c2,
            (200, Similarity_result (fsum (map2 fmul (row emb1 0) (row emb2 0))) t1 t2)) \<and>
         (\<exists>r1. c1 = Tokenizer_call [if USE_E5_PREFIX (model_name env)
                                     then ''query: '' @ t1 else t1] # r1) \<and>
         (\<exists>r2. c2 = Tokenizer_call [if USE_E5_PREFIX (model_name env)
                                     then ''passage: '' @ t2 else t2] # r2)"
proof -
  have d: "dot (row emb1 0) (row emb2 0) = Inr (fsum (map2 fmul (row emb1 0) (row emb2 0)))"
    using assms(7) by (simp add: dot_def length_row)
  have "similarity env data =
          (c1 @ c2,
           (200, Similarity_result (fsum (map2 fmul (row emb1 0) (row emb2 0))) t1 t2))"
    by (simp add: similarity_def assms(1-4) getitem0_row [OF assms(5)] getitem0_row [OF assms(6)] d)
  moreover have "\<exists>r1. c1 = Tokenizer_call [if USE_E5_PREFIX (model_name env)
                                     then ''query: '' @ t1 else t1] # r1"
    using get_embeddings_calls [of env "[t1]" "''query''"] assms(3) by auto
  moreover have "\<exists>r2. c2 = Tokenizer_call [if USE_E5_PREFIX (model_name env)
                                     then ''passage: '' @ t2 else t2] # r2"
    using get_embeddings_calls [of env "[t2]" "''passage''"] assms(4) by auto
  ultimately show ?thesis by blast
qed

theorem similarity_is_dot_of_query_and_passage_witness:
  "similarity (toy_env ''intfloat/e5-small-v2'') \<lparr>text1 = Some ''x'', text2 = Some ''yyy''\<rparr> =
     ([Tokenizer_call [''query: x''], Model_call, Tokenizer_call [''passage: yyy''], Model_call],
      (200, Similarity_result (Fin 0) ''x'' ''yyy''))"
proof -
  let ?toy = "toy_env ''intfloat/e5-small-v2''"
  obtain emb1 where e1: "get_embeddings ?toy [''x''] ''query'' =
        ([Tokenizer_call [''query: x''], Model_call], Inr emb1)"
      "shape2 emb1 = (1, 2)" "row emb1 0 = [Fin 1, Fin 0]"
    using toy_e5_query_x by blast
  obtain emb2 where e2: "get_embeddings ?toy [''yyy''] ''passage'' =
        ([Tokenizer_call [''passage: yyy''], Model_call], Inr emb2)"
      "shape2 emb2 = (1, 2)" "row emb2 0 = [Fin 0, Fin 1]"
    using toy_e5_passage_yyy by blast
  have sh: "0 < fst (shape2 emb1)" "0 < fst (shape2 emb2)" "snd (shape2 emb1) = snd (shape2 emb2)"
    by (simp_all add: e1(2) e2(2))
  have "similarity ?toy \<lparr>text1 = Some ''x'', text2 = Some ''yyy''\<rparr> =
      ([Tokenizer_call [''query: x''], Model_call] @ [Tokenizer_call [''passage: yyy''], Model_call],
       (200, Similarity_result (fsum (map2 fmul (row emb1 0) (row emb2 0))) ''x'' ''yyy''))"
    using similarity_is_dot_of_query_and_passage
        [of "\<lparr>text1 = Some ''x'', text2 = Some ''yyy''\<rparr>" "''x''" "''yyy''" ?toy, OF _ _ e1(1) e2(1) sh]
    by simp
  then show ?thesis
    by (simp add: e1(3) e2(3) fsum_def)
qed

lemma fmul_commute: "fmul x y = fmul y x"
  by (cases x; cases y) (simp_all add: mult.commute)

lemma map2_fmul_commute: "map2 fmul xs ys = map2 fmul ys xs"
proof (induction xs arbitrary: ys)
  case Nil
  then show ?case by simp
next
  case (Cons x xs)
  then show ?case by (cases ys) (simp_all add: fmul_commute)
qed

lemma dot_score_commute:
  "(case dot x y of Inl e \<Rightarrow> None | Inr s \<Rightarrow> Some s) =
   (case dot y x of Inl e \<Rightarrow> None | Inr s \<Rightarrow> Some s)"
  by (simp add: dot_def map2_fmul_commute)

lemma pair_score_commute: "pair_score r1 r2 = pair_score r2 r1"
proof (cases r1)
  case (Inl e)
  then show ?thesis by (cases r2) (simp_all add: pair_score_def split: sum.splits)
next
  case r1: (Inr emb1)
  show ?thesis
  proof (cases r2)
    case (Inl e)
    then show ?thesis using r1 by (simp add: pair_score_def)
  next
    case r2: (Inr emb2)
    show ?thesis
    proof (cases "getitem0 emb1")
      case (Inl e)
      then show ?thesis using r1 r2 by (simp add: pair_score_def split: sum.splits)
    next
      case v1: (Inr v1)
      show ?thesis
      proof (cases "getitem0 emb2")
        case (Inl e)
        then show ?thesis using r1 r2 v1 by (simp add: pair_score_def)
      next
        case (Inr v2)
        then show ?thesis
          using r1 r2 v1 dot_score_commute [of v1 v2] by (simp add: pair_score_def)
      qed
    qed
  qed
qed

lemma score_similarity:
  "score (snd (similarity env \<lparr>text1 = Some a, text2 = Some b\<rparr>)) =
     pair_score (snd (get_embeddings env [a] ''query'')) (snd (get_embeddings env [b] ''passage''))"
proof -
  obtain c1 r1 where g1: "get_embeddings env [a] ''query'' = (c1, r1)"
    by (cases "get_embeddings env [a] ''query''")
  obtain c2 r2 where g2: "get_embeddings env [b] ''passage'' = (c2, r2)"
    by (cases "get_embeddings env [b] ''passage''")
  show ?thesis
  proof (cases r1)
    case (Inl e)
    then show ?thesis by (simp add: similarity_def g1 pair_score_def)
  next
    case r1: (Inr emb1)
    show ?thesis
    proof (cases r2)
      case (Inl e)
      then show ?thesis by (simp add: similarity_def g1 g2 r1 pair_score_def)
    next
      case r2: (Inr emb2)
      show ?thesis
      proof (cases "getitem0 emb1")
        case (Inl e)
        then show ?thesis by (simp add: similarity_def g1 g2 r1 r2 pair_score_def)
      next
        case v1: (Inr v1)
        show ?thesis
        proof (cases "getitem0 emb2")
          case (Inl e)
          then show ?thesis by (simp add: similarity_def g1 g2 r1 r2 v1 pair_score_def)
        next
          case v2: (Inr v2)
          show ?thesis
            by (cases "dot v1 v2") (simp_all add: similarity_def g1 g2 r1 r2 v1 v2 pair_score_def)
        qed
      qed
    qed
  qed
qed

lemma get_embeddings_prefix_ignored:
  "\<not> USE_E5_PREFIX (model_name env) \<Longrightarrow>
     get_embeddings env sentences p = get_embeddings env sentences q"
  by (simp add: get_embeddings_def)

lemma pair_score_rows:
  assumes "shape2 emb1 = (1, 2)" and "shape2 emb2 = (1, 2)"
  shows "pair_score (Inr emb1) (Inr emb2) = Some (fsum (map2 fmul (row emb1 0) (row emb2 0)))"
  using assms by (simp add: pair_score_def getitem0_def dot_def length_row)

lemma toy_e5_query_yyy:
  "\<exists>emb. get_embeddings (toy_env ''intfloat/e5-small-v2'') [''yyy''] ''query'' =
            ([Tokenizer_call [''query: yyy''], Model_call], Inr emb) \<and>
         shape2 emb = (1, 2) \<and> row emb 0 = [Fin 0, Fin 1]"
  by (simp add: toy_eval)

lemma toy_minilm_x:
  "\<exists>emb. get_embeddings (toy_env ''all-MiniLM-L6-v2'') [''x''] ''query'' =
            ([Tokenizer_call [''x''], Model_call], Inr emb) \<and>
         shape2 emb = (1, 2) \<and> row emb 0 = [Fin 1, Fin 0]"
  by (simp add: toy_eval)

lemma toy_minilm_long:
  "\<exists>emb. get_embeddings (toy_env ''all-MiniLM-L6-v2'') [''a longer passage''] ''passage'' =
            ([Tokenizer_call [''a longer passage''], Model_call], Inr emb) \<and>
         shape2 emb = (1, 2) \<and> row emb 0 = [Fin 0, Fin 1]"
  by (simp add: toy_eval)

lemma toy_e5_scores:
  "score (snd (similarity (toy_env ''intfloat/e5-small-v2'')
                 \<lparr>text1 = Some ''x'', text2 = Some ''yyy''\<rparr>)) = Some (Fin 0) \<and>
   score (snd (similarity (toy_env ''intfloat/e5-small-v2'')
                 \<lparr>text1 = Some ''yyy'', text2 = Some ''x''\<rparr>)) = Some (Fin 1)"
proof -
  obtain qx where qx: "get_embeddings (toy_env ''intfloat/e5-small-v2'') [''x''] ''query'' =
        ([Tokenizer_call [''query: x''], Model_call], Inr qx)"
      "shape2 qx = (1, 2)" "row qx 0 = [Fin 1, Fin 0]"
    using toy_e5_query_x by blast
  obtain px where px: "get_embeddings (toy_env ''intfloat/e5-small-v2'') [''x''] ''passage'' =
        ([Tokenizer_call [''passage: x''], Model_call], Inr px)"
      "shape2 px = (1, 2)" "row px 0 = [Fin 0, Fin 1]"
    using toy_e5_passage_x by blast
  obtain qy where qy: "get_embeddings (toy_env ''intfloat/e5-small-v2'') [''yyy''] ''query'' =
        ([Tokenizer_call [''query: yyy''], Model_call], Inr qy)"
      "shape2 qy = (1, 2)" "row qy 0 = [Fin 0, Fin 1]"
    using toy_e5_query_yyy by blast
  obtain py where py: "get_embeddings (toy_env ''intfloat/e5-small-v2'') [''yyy''] ''passage'' =
        ([Tokenizer_call [''passage: yyy''], Model_call], Inr py)"
      "shape2 py = (1, 2)" "row py 0 = [Fin 0, Fin 1]"
    using toy_e5_passage_yyy by blast
  have "score (snd (similarity (toy_env ''intfloat/e5-small-v2'')
                 \<lparr>text1 = Some ''x'', text2 = Some ''yyy''\<rparr>)) = Some (Fin 0)"
    by (simp add: score_similarity qx(1) py(1) pair_score_rows [OF qx(2) py(2)] qx(3) py(3)
        fsum_def)
  moreover have "score (snd (similarity (toy_env ''intfloat/e5-small-v2'')
                 \<lparr>text1 = Some ''yyy'', text2 = Some ''x''\<rparr>)) = Some (Fin 1)"
    by (simp add: score_similarity qy(1) px(1) pair_score_rows [OF qy(2) px(2)] qy(3) px(3)
        fsum_def)
  ultimately show ?thesis by blast
qed

text \<open>
  Claim C8. Without prefix mode the score of \<^verbatim>\<open>similarity\<close> is symmetric in its two texts:
  the two prefixes are ignored and the dot product commutes (when one order fails, so does
  the other, and neither has a score). With prefix mode it need not be: for the stand-in
  tokenizer and model the texts \<open>x\<close> and \<open>yyy\<close> score 0 in one order and 1 in the other.
\<close>

theorem similarity_symmetric_without_prefix:
  "(\<not> USE_E5_PREFIX (model_name env) \<longrightarrow>
      score (snd (similarity env \<lparr>text1 = Some a, text2 = Some b\<rparr>)) =
      score (snd (similarity env \<lparr>text1 = Some b, text2 = Some a\<rparr>))) \<and>
   USE_E5_PREFIX (model_name (toy_env ''intfloat/e5-small-v2'')) \<and>
   score (snd (similarity (toy_env ''intfloat/e5-small-v2'')
                 \<lparr>text1 = Some ''x'', text2 = Some ''yyy''\<rparr>)) \<noteq>
   score (snd (similarity (toy_env ''intfloat/e5-small-v2'')
                 \<lparr>text1 = Some ''yyy'', text2 = Some ''x''\<rparr>))"
proof (intro conjI impI)
  assume off: "\<not> USE_E5_PREFIX (model_name env)"
  have "score (snd (similarity env \<lparr>text1 = Some a, text2 = Some b\<rparr>)) =
        pair_score (snd (get_embeddings env [a] ''query'')) (snd (get_embeddings env [b] ''passage''))"
    by (rule score_similarity)
  also have "\<dots> =
        pair_score (snd (get_embeddings env [a] ''passage'')) (snd (get_embeddings env [b] ''query''))"
    using get_embeddings_prefix_ignored [OF off, of "[a]" "''query''" "''passage''"]
      get_embeddings_prefix_ignored [OF off, of "[b]" "''passage''" "''query''"]
    by simp
  also have "\<dots> =
        pair_score (snd (get_embeddings env [b] ''query'')) (snd (get_embeddings env [a] ''passage''))"
    by (rule pair_score_commute)
  also have "\<dots> = score (snd (similarity env \<lparr>text1 = Some b, text2 = Some a\<rparr>))"
    by (rule score_similarity [symmetric])
  finally show "score (snd (similarity env \<lparr>text1 = Some a, text2 = Some b\<rparr>)) =
      score (snd (similarity env \<lparr>text1 = Some b, text2 = Some a\<rparr>))" .
next
  show "USE_E5_PREFIX (model_name (toy_env ''intfloat/e5-small-v2''))"
    by (rule e5_small_v2)
next
  show "score (snd (similarity (toy_env ''intfloat/e5-small-v2'')
                 \<lparr>text1 = Some ''x'', text2 = Some ''yyy''\<rparr>)) \<noteq>
        score (snd (similarity (toy_env ''intfloat/e5-small-v2'')
                 \<lparr>text1 = Some ''yyy'', text2 = Some ''x''\<rparr>))"
    using toy_e5_scores by simp
qed

theorem similarity_symmetric_without_prefix_witness:
  "\<not> USE_E5_PREFIX (model_name (toy_env ''all-MiniLM-L6-v2'')) \<and>
   score (snd (similarity (toy_env ''all-MiniLM-L6-v2'')
                 \<lparr>text1 = Some ''x'', text2 = Some ''a longer passage''\<rparr>)) = Some (Fin 0) \<and>
   score (snd (similarity (toy_env ''all-MiniLM-L6-v2'')
                 \<lparr>text1 = Some ''a longer passage'', text2 = Some ''x''\<rparr>)) = Some (Fin 0)"
proof -
  obtain ex where ex: "get_embeddings (toy_env ''all-MiniLM-L6-v2'') [''x''] ''query'' =
        ([Tokenizer_call [''x''], Model_call], Inr ex)"
      "shape2 ex = (1, 2)" "row ex 0 = [Fin 1, Fin 0]"
    using toy_minilm_x by blast
  obtain el where el: "get_embeddings (toy_env ''all-MiniLM-L6-v2'') [''a longer passage''] ''passage'' =
        ([Tokenizer_call [''a longer passage''], Model_call], Inr el)"
      "shape2 el = (1, 2)" "row el 0 = [Fin 0, Fin 1]"
    using toy_minilm_long by blast
  have one: "score (snd (similarity (toy_env ''all-MiniLM-L6-v2'')
                 \<lparr>text1 = Some ''x'', text2 = Some ''a longer passage''\<rparr>)) = Some (Fin 0)"
    by (simp add: score_similarity ex(1) el(1) pair_score_rows [OF ex(2) el(2)] ex(3) el(3)
        fsum_def)
  show ?thesis
    using minilm one
      similarity_symmetric_without_prefix
        [of "toy_env ''all-MiniLM-L6-v2''" "''x''" "''a longer passage''"]
    by simp
qed

section \<open>The artifact cache: the claim\<close>

lemma cache_root_length: "length ''/app/cache/onnx/'' = 16"
  by simp

lemma onnx_path_parts:
  "take 16 (onnx_path name) = ''/app/cache/onnx/'' \<and>
   length (onnx_path name) = 16 + length name \<and>
   CHR ''/'' \<notin> set (drop 16 (onnx_path name))"
proof -
  let ?root = "''/app/cache/onnx/''"
  let ?rest = "map (\<lambda>c. if c = CHR ''/'' then CHR ''_'' else c) name"
  have p: "onnx_path name = ?root @ ?rest"
    by (simp only: onnx_path_def)
  have "take (length ?root) (?root @ ?rest) = ?root"
    by (simp only: take_append take_all order_refl diff_self_eq_0 take_0 append_Nil2)
  then have a: "take 16 (onnx_path name) = ?root"
    by (simp only: p cache_root_length)
  have b: "length (onnx_path name) = 16 + length name"
    by (simp only: p length_append cache_root_length length_map)
  have "drop (length ?root) (?root @ ?rest) = ?rest"
    by (simp only: drop_append drop_all order_refl diff_self_eq_0 drop_0 append_Nil)
  then have "drop 16 (onnx_path name) = ?rest"
    by (simp only: p cache_root_length)
  moreover have "CHR ''/'' \<notin> set ?rest"
    by (induction name) simp_all
  ultimately have c: "CHR ''/'' \<notin> set (drop 16 (onnx_path name))"
    by metis
  show ?thesis
    using a b c by blast
qed

lemma ensure_artifact_cached:
  assumes "onnx_path name \<in> existing w"
  shows "ensure_artifact lib w name =
           (w, case from_pretrained lib (onnx_path name) False of
                 Inl e \<Rightarrow> Inl e
               | Inr m \<Rightarrow> Inr (onnx_path name, m))"
  using assms by (cases "from_pretrained lib (onnx_path name) False")
    (simp_all add: ensure_artifact_def Let_def)

lemma ensure_artifact_success:
  assumes "ensure_artifact lib w name = (w', Inr (p, m))"
  shows "p = onnx_path name \<and> p \<in> existing w'"
proof (cases "onnx_path name \<in> existing w")
  case True
  show ?thesis
  proof (cases "from_pretrained lib (onnx_path name) False")
    case (Inl e)
    then show ?thesis
      using assms True by (simp add: ensure_artifact_def)
  next
    case (Inr m')
    then show ?thesis
      using assms True by (auto simp: ensure_artifact_def)
  qed
next
  case False
  show ?thesis
  proof (cases "from_pretrained lib name True")
    case (Inl e)
    then show ?thesis
      using assms False by (simp add: ensure_artifact_def Let_def)
  next
    case conv: (Inr m')
    show ?thesis
    proof (cases "save_pretrained lib m' (onnx_path name)")
      case None
      then show ?thesis
        using assms False conv by (auto simp: ensure_artifact_def Let_def)
    next
      case (Some e)
      then show ?thesis
        using assms False conv by (simp add: ensure_artifact_def Let_def)
    qed
  qed
qed

text \<open>
  Claim C5. The cache path is a function of the model identifier alone: the cache root
  followed by the identifier with every slash replaced by an underscore. When the path
  exists, \<open>ensure_artifact\<close> loads from it and leaves the file system and the conversion
  count as they are. After a call that returned, the path exists, so a second call for the
  same identifier changes nothing, converts nothing and can only return the same path.
\<close>

theorem ensure_artifact_idempotent:
  "take 16 (onnx_path name) = ''/app/cache/onnx/'' \<and>
   length (onnx_path name) = 16 + length name \<and>
   CHR ''/'' \<notin> set (drop 16 (onnx_path name)) \<and>
   (onnx_path name \<in> existing w \<longrightarrow>
      ensure_artifact lib w name =
        (w, case from_pretrained lib (onnx_path name) False of
              Inl e \<Rightarrow> Inl e
            | Inr m \<Rightarrow> Inr (onnx_path name, m))) \<and>
   (ensure_artifact lib w name = (w', Inr (p, m)) \<longrightarrow>
      p = onnx_path name \<and> p \<in> existing w' \<and>
      fst (ensure_artifact lib w' name) = w' \<and>
      conversions (fst (ensure_artifact lib w' name)) = conversions w' \<and>
      (\<forall>p' m'. snd (ensure_artifact lib w' name) = Inr (p', m') \<longrightarrow> p' = p))"
proof -
  have cached: "onnx_path name \<in> existing w \<longrightarrow>
      ensure_artifact lib w name =
        (w, case from_pretrained lib (onnx_path name) False of
              Inl e \<Rightarrow> Inl e
            | Inr m \<Rightarrow> Inr (onnx_path name, m))"
    by (rule impI) (rule ensure_artifact_cached)
  have again: "ensure_artifact lib w name = (w', Inr (p, m)) \<longrightarrow>
      p = onnx_path name \<and> p \<in> existing w' \<and>
      fst (ensure_artifact lib w' name) = w' \<and>
      conversions (fst (ensure_artifact lib w' name)) = conversions w' \<and>
      (\<forall>p' m'. snd (ensure_artifact lib w' name) = Inr (p', m') \<longrightarrow> p' = p)"
  proof (rule impI)
    assume first: "ensure_artifact lib w name = (w', Inr (p, m))"
    have p1: "p = onnx_path name"
      using ensure_artifact_success [OF first] by (rule conjunct1)
    have p2: "p \<in> existing w'"
      using ensure_artifact_success [OF first] by (rule conjunct2)
    have "onnx_path name \<in> existing w'"
      using p2 unfolding p1 .
    then have second: "ensure_artifact lib w' name =
        (w', case from_pretrained lib (onnx_path name) False of
               Inl e \<Rightarrow> Inl e
             | Inr m \<Rightarrow> Inr (onnx_path name, m))"
      by (rule ensure_artifact_cached)
    have s1: "fst (ensure_artifact lib w' name) = w'"
      unfolding second by (rule fst_conv)
    have s2: "conversions (fst (ensure_artifact lib w' name)) = conversions w'"
      unfolding s1 by (rule refl)
    have s3: "\<forall>p' m'. snd (ensure_artifact lib w' name) = Inr (p', m') \<longrightarrow> p' = p"
      unfolding second snd_conv p1
      by (cases "from_pretrained lib (onnx_path name) False") simp_all
    show "p = onnx_path name \<and> p \<in> existing w' \<and>
      fst (ensure_artifact lib w' name) = w' \<and>
      conversions (fst (ensure_artifact lib w' name)) = conversions w' \<and>
      (\<forall>p' m'. snd (ensure_artifact lib w' name) = Inr (p', m') \<longrightarrow> p' = p)"
      by (intro conjI p1 p2 s1 s2 s3)
  qed
  show ?thesis
    by (intro conjI onnx_path_parts [THEN conjunct1]
        onnx_path_parts [THEN conjunct2, THEN conjunct1]
        onnx_path_parts [THEN conjunct2, THEN conjunct2] cached again)
qed

theorem ensure_artifact_idempotent_witness:
  "ensure_artifact toy_library \<lparr>existing = {}, conversions = 0\<rparr> ''intfloat/e5-small-v2'' =
     (\<lparr>existing = {''/app/cache/onnx/intfloat_e5-small-v2''}, conversions = 1\<rparr>,
      Inr (''/app/cache/onnx/intfloat_e5-small-v2'', ''intfloat/e5-small-v2'')) \<and>
   ensure_artifact toy_library
     \<lparr>existing = {''/app/cache/onnx/intfloat_e5-small-v2''}, conversions = 1\<rparr>
     ''intfloat/e5-small-v2'' =
     (\<lparr>existing = {''/app/cache/onnx/intfloat_e5-small-v2''}, conversions = 1\<rparr>,
      Inr (''/app/cache/onnx/intfloat_e5-small-v2'', ''/app/cache/onnx/intfloat_e5-small-v2''))"
proof -
  let ?name = "''intfloat/e5-small-v2''"
  let ?p = "''/app/cache/onnx/intfloat_e5-small-v2''"
  let ?w' = "\<lparr>existing = {?p}, conversions = 1\<rparr>"
  have path: "onnx_path ?name = ?p"
    by (simp add: onnx_path_def)
  have first: "ensure_artifact toy_library \<lparr>existing = {}, conversions = 0\<rparr> ?name =
      (?w', Inr (?p, ?name))"
    by (simp add: ensure_artifact_def toy_library_def path Let_def)
  have "onnx_path ?name \<in> existing ?w'"
    by (simp add: path)
  then have "ensure_artifact toy_library ?w' ?name =
      (?w', case from_pretrained toy_library (onnx_path ?name) False of
              Inl e \<Rightarrow> Inl e
            | Inr m \<Rightarrow> Inr (onnx_path ?name, m))"
    using ensure_artifact_idempotent [of ?name ?w' toy_library] by blast
  then have "ensure_artifact toy_library ?w' ?name = (?w', Inr (?p, ?p))"
    by (simp add: toy_library_def path)
  then show ?thesis
    using first by simp
qed

end
